theory Spec2Isabelle
  imports Complex_Main
begin

section \<open>pyfixest: the Feols estimator (src/pyfixest/feols.py)\<close>

text \<open>
  The development embeds the class \<open>Feols\<close> and the helpers \<open>_check_vcov_input\<close>,
  \<open>_deparse_vcov_input\<close> and \<open>_feols_input_checks\<close>. A Python exception is a value
  of type \<open>error\<close>; a method that mutates \<open>self\<close> returns the new object, also when
  it raises, because the fields assigned before the \<open>raise\<close> keep their new values.

  Arithmetic is exact: a float64 is a \<open>real\<close>, a numpy array of two dimensions is the
  list of its rows, one of a single dimension is a list. Rounding is outside the model, and
  so are the \<open>inf\<close> and \<open>nan\<close> that numpy produces (with a warning, never with an
  exception) on a division by zero or a square root of a negative number: the model is
  total there as numpy is, and what such an entry is worth never matters to a theorem below.
  numpy raises \<open>ValueError\<close> when the shapes of two operands do not agree; the model
  covers operands whose shapes agree.
\<close>

subsection \<open>Python values, exceptions, data frames\<close>

datatype error =
    AssertionError
  | VcovTypeNotSupportedError
  | NanInClusterVarError
  | NotImplementedError
  | UnboundLocalError
  | IndexError
  | KeyError
  | TypeError
  | ValueError
  | AttributeError
  | LinAlgError
  | RefitError

datatype pyval =
    PStr string
  | PInt int
  | PNone
  | PList "pyval list"
  | PDict "(pyval \<times> pyval) list"

text \<open>
  A cluster label is an integer or a string; a missing value of the column is \<open>None\<close>.
  A data frame is the list of its columns, each with its name.
\<close>

datatype label = LInt int | LStr string

type_synonym frame = "(string \<times> label option list) list"

definition columns :: "frame \<Rightarrow> string list" where
  "columns d = map fst d"

fun is_str :: "pyval \<Rightarrow> bool" where
  "is_str (PStr s) = True"
| "is_str v = False"

subsection \<open>\<open>_check_vcov_input\<close>\<close>

text \<open>
  The three \<open>isinstance\<close> blocks of the source exclude each other. \<open>list(d.keys())[0]\<close>
  raises \<open>IndexError\<close> on an empty dict; \<open>data.columns\<close> raises \<open>AttributeError\<close>
  while \<open>self._data\<close> is still \<open>None\<close>; \<open>all\<close> over an empty list never evaluates
  its body.
\<close>

definition in_columns :: "pyval \<Rightarrow> frame option \<Rightarrow> error + bool" where
  "in_columns v data =
     (case data of
        None \<Rightarrow> Inl AttributeError
      | Some d \<Rightarrow> Inr (v \<in> PStr ` set (columns d)))"

definition check_vcov_input :: "pyval \<Rightarrow> frame option \<Rightarrow> error + unit" where
  "check_vcov_input vcov data =
     (case vcov of
        PDict kvs \<Rightarrow>
          (case kvs of
             [] \<Rightarrow> Inl IndexError
           | (key, val) # rest \<Rightarrow>
               if key \<notin> set [PStr ''CRV1'', PStr ''CRV3''] then Inl AssertionError
               else if \<not> is_str val then Inl AssertionError
               else (case in_columns val data of
                       Inl e \<Rightarrow> Inl e
                     | Inr b \<Rightarrow> if b then Inr () else Inl AssertionError))
      | PList vs \<Rightarrow>
          if \<not> list_all is_str vs then Inl AssertionError
          else if vs = [] then Inr ()
          else (case data of
                  None \<Rightarrow> Inl AttributeError
                | Some d \<Rightarrow>
                    if list_all (\<lambda>v. v \<in> PStr ` set (columns d)) vs then Inr ()
                    else Inl AssertionError)
      | PStr s \<Rightarrow>
          if s \<in> set [''iid'', ''hetero'', ''HC1'', ''HC2'', ''HC3''] then Inr ()
          else Inl AssertionError
      | PInt i \<Rightarrow> Inl AssertionError
      | PNone \<Rightarrow> Inl AssertionError)"

subsection \<open>\<open>_deparse_vcov_input\<close>\<close>

text \<open>
  \<open>vcov_type\<close> and \<open>is_clustered\<close> are assigned in the branches of the
  \<open>if\<close>/\<open>elif\<close> chain only. When no branch is taken (a list, or a string or key
  outside the known names) the test \<open>if is_clustered\<close> reads an unassigned local
  variable and Python raises \<open>UnboundLocalError\<close>. \<open>vcov.values()\<close> on a string
  raises \<open>AttributeError\<close>.
\<close>

definition first_value :: "pyval \<Rightarrow> error + pyval" where
  "first_value vcov =
     (case vcov of
        PDict kvs \<Rightarrow> (case kvs of [] \<Rightarrow> Inl IndexError | (key, val) # rest \<Rightarrow> Inr val)
      | PStr s \<Rightarrow> Inl AttributeError
      | PInt i \<Rightarrow> Inl AttributeError
      | PNone \<Rightarrow> Inl AttributeError
      | PList vs \<Rightarrow> Inl AttributeError)"

definition vcov_detail :: "pyval \<Rightarrow> error + pyval" where
  "vcov_detail vcov =
     (case vcov of
        PDict kvs \<Rightarrow> (case kvs of [] \<Rightarrow> Inl IndexError | (key, val) # rest \<Rightarrow> Inr key)
      | PList vs \<Rightarrow> Inr (PList vs)
      | PStr s \<Rightarrow> Inr (PStr s)
      | PInt i \<Rightarrow> Inl AssertionError
      | PNone \<Rightarrow> Inl AssertionError)"

definition deparse_vcov_input ::
  "pyval \<Rightarrow> bool \<Rightarrow> bool \<Rightarrow> error + (string \<times> pyval \<times> bool \<times> pyval option)" where
  "deparse_vcov_input vcov has_fixef is_iv =
     (case vcov_detail vcov of
        Inl e \<Rightarrow> Inl e
      | Inr vcov_type_detail \<Rightarrow>
          if vcov_type_detail = PStr ''iid'' then
            Inr (''iid'', vcov_type_detail, False, None)
          else if vcov_type_detail \<in> set [PStr ''hetero'', PStr ''HC1'', PStr ''HC2'', PStr ''HC3''] then
            (if vcov_type_detail \<in> set [PStr ''HC2'', PStr ''HC3''] \<and> has_fixef then
               Inl VcovTypeNotSupportedError
             else if vcov_type_detail \<in> set [PStr ''HC2'', PStr ''HC3''] \<and> is_iv then
               Inl VcovTypeNotSupportedError
             else Inr (''hetero'', vcov_type_detail, False, None))
          else if vcov_type_detail \<in> set [PStr ''CRV1'', PStr ''CRV3''] then
            (case first_value vcov of
               Inl e \<Rightarrow> Inl e
             | Inr clustervar \<Rightarrow> Inr (''CRV'', vcov_type_detail, True, Some clustervar))
          else Inl UnboundLocalError)"

subsection \<open>numpy arrays\<close>

type_synonym vec = "real list"
type_synonym mat = "real list list"

text \<open>
  A list of rows does not record the number of columns of an array without rows, which numpy
  keeps: \<open>transpose_n\<close> and \<open>matmul_n\<close> take it as an argument. They are used
  where a boolean mask can select no row. The arrays \<open>Y\<close>, \<open>X\<close>, \<open>Z\<close> handed
  to the class have at least one row.
\<close>

definition ncols :: "mat \<Rightarrow> nat" where
  "ncols A = (case A of [] \<Rightarrow> 0 | r # rs \<Rightarrow> length r)"

definition col :: "mat \<Rightarrow> nat \<Rightarrow> vec" where
  "col A j = map (\<lambda>r. r ! j) A"

definition dot :: "vec \<Rightarrow> vec \<Rightarrow> real" where
  "dot u v = sum_list (map2 (*) u v)"

definition transpose_n :: "nat \<Rightarrow> mat \<Rightarrow> mat" where
  "transpose_n n A = map (col A) [0..<n]"

definition matmul_n :: "nat \<Rightarrow> mat \<Rightarrow> mat \<Rightarrow> mat" where
  "matmul_n p A B = map (\<lambda>r. map (\<lambda>j. dot r (col B j)) [0..<p]) A"

definition transpose_m :: "mat \<Rightarrow> mat" where
  "transpose_m A = transpose_n (ncols A) A"

definition matmul :: "mat \<Rightarrow> mat \<Rightarrow> mat" where
  "matmul A B = matmul_n (ncols B) A B"

definition mat_vec :: "mat \<Rightarrow> vec \<Rightarrow> vec" where
  "mat_vec A v = map (\<lambda>r. dot r v) A"

definition vec_mat :: "vec \<Rightarrow> mat \<Rightarrow> vec" where
  "vec_mat v A = map (\<lambda>j. dot v (col A j)) [0..<ncols A]"

definition flatten :: "mat \<Rightarrow> vec" where
  "flatten A = concat A"

definition scal :: "real \<Rightarrow> mat \<Rightarrow> mat" where
  "scal c A = map (map ((*) c)) A"

definition vsub :: "vec \<Rightarrow> vec \<Rightarrow> vec" where
  "vsub u v = map2 (-) u v"

definition madd :: "mat \<Rightarrow> mat \<Rightarrow> mat" where
  "madd A B = map2 (map2 (+)) A B"

definition msub :: "mat \<Rightarrow> mat \<Rightarrow> mat" where
  "msub A B = map2 (map2 (-)) A B"

definition outer :: "vec \<Rightarrow> vec \<Rightarrow> mat" where
  "outer u v = map (\<lambda>a. map (\<lambda>b. a * b) v) u"

definition zeros :: "nat \<Rightarrow> nat \<Rightarrow> mat" where
  "zeros n p = replicate n (replicate p 0)"

text \<open>\<open>A * v[:, None]\<close> and \<open>A / v[:, None]\<close>: row \<open>i\<close> of \<open>A\<close> times, or over, \<open>v[i]\<close>.\<close>

definition rows_times :: "mat \<Rightarrow> vec \<Rightarrow> mat" where
  "rows_times A v = map2 (\<lambda>r c. map (\<lambda>a. a * c) r) A v"

definition rows_over :: "mat \<Rightarrow> vec \<Rightarrow> mat" where
  "rows_over A v = map2 (\<lambda>r c. map (\<lambda>a. a / c) r) A v"

definition diagonal :: "mat \<Rightarrow> vec" where
  "diagonal A = map (\<lambda>i. A ! i ! i) [0..<min (length A) (ncols A)]"

text \<open>\<open>A[mask]\<close>: the rows of \<open>A\<close> where the boolean mask holds.\<close>

definition select :: "bool list \<Rightarrow> 'a list \<Rightarrow> 'a list" where
  "select bs xs = map snd (filter fst (zip bs xs))"

text \<open>
  \<open>pd.factorize\<close> returns the distinct values in the order of their first appearance.
\<close>

fun uniques :: "'a list \<Rightarrow> 'a list" where
  "uniques [] = []"
| "uniques (x # xs) = x # uniques (filter (\<lambda>y. y \<noteq> x) xs)"

text \<open>A loop whose body may raise stops at the first exception.\<close>

fun collect :: "(error + 'a) list \<Rightarrow> error + 'a list" where
  "collect [] = Inr []"
| "collect (r # rs) =
     (case r of
        Inl e \<Rightarrow> Inl e
      | Inr x \<Rightarrow> (case collect rs of Inl e \<Rightarrow> Inl e | Inr xs \<Rightarrow> Inr (x # xs)))"

subsection \<open>External collaborators\<close>

text \<open>
  The class calls numpy's linear algebra, scipy's distributions, \<open>pyfixest.ssc_utils.get_ssc\<close>
  and, for CRV3 with fixed effects, a refit by \<open>pyfixest.fixest.Fixest\<close>. None of them is
  part of feols.py: they are parameters of the model. \<open>None\<close> from a linear-algebra
  routine is numpy's \<open>LinAlgError\<close>.
\<close>

record 'd ext =
  np_inv :: "mat \<Rightarrow> mat option"
  np_solve :: "mat \<Rightarrow> mat \<Rightarrow> mat option"
  np_pinv :: "mat \<Rightarrow> mat option"
  get_ssc :: "'d option \<Rightarrow> nat \<Rightarrow> nat \<Rightarrow> nat \<Rightarrow> int \<Rightarrow> string \<Rightarrow> real"
  t_cdf :: "real \<Rightarrow> int \<Rightarrow> real"
  t_ppf :: "real \<Rightarrow> int \<Rightarrow> real"
  norm_cdf :: "real \<Rightarrow> real"
  norm_ppf :: "real \<Rightarrow> real"
  fixest_coef :: "string option \<Rightarrow> frame \<Rightarrow> error + vec"

definition inv_or_raise :: "'d ext \<Rightarrow> mat \<Rightarrow> error + mat" where
  "inv_or_raise np A = (case np_inv np A of None \<Rightarrow> Inl LinAlgError | Some B \<Rightarrow> Inr B)"

definition pinv_or_raise :: "'d ext \<Rightarrow> mat \<Rightarrow> error + mat" where
  "pinv_or_raise np A = (case np_pinv np A of None \<Rightarrow> Inl LinAlgError | Some B \<Rightarrow> Inr B)"

subsection \<open>The object\<close>

text \<open>
  \<open>fit\<close> holds the attributes that \<open>get_fit\<close> assigns. \<open>beta_hat\<close> does not
  exist on the object before \<open>get_fit\<close> has returned; \<open>get_vcov\<close>,
  \<open>get_inference\<close> and \<open>get_Ftest\<close> read it before any other of these attributes
  and raise \<open>AttributeError\<close> then. (A \<open>get_fit\<close> that raises has assigned
  \<open>tZX\<close> and \<open>tZy\<close> only, which nothing reads on their own: the model leaves the
  object as it was.) \<open>tXZ\<close> and \<open>tZZinv\<close> are \<open>None\<close> after
  \<open>Feols.get_fit\<close>; an IV model carries arrays there. A result field that was never
  assigned and one that holds \<open>None\<close> are both \<open>None\<close>.
\<close>

record fit =
  tZX :: mat
  tZy :: mat
  tZXinv :: mat
  beta_hat :: vec
  Y_hat_link :: vec
  u_hat :: vec
  scores :: mat
  hessian :: mat
  tXZ :: "mat option"
  tZZinv :: "mat option"

record 'd feols =
  self_method :: string
  self_Y :: mat
  self_X :: mat
  self_Z :: mat
  self_weights :: "mat option"
  self_is_iv :: bool
  self_N :: nat
  self_k :: nat
  self_support_crv3_inference :: bool
  self_support_iid_inference :: bool
  self_data :: "frame option"
  self_fml :: "string option"
  self_has_fixef :: bool
  self_ssc_dict :: "'d option"
  self_fit :: "fit option"
  self_vcov_type :: "string option"
  self_vcov_type_detail :: "pyval option"
  self_is_clustered :: "bool option"
  self_clustervar :: "pyval option"
  self_G :: "nat option"
  self_ssc :: "real option"
  self_vcov :: "mat option"
  self_se :: "vec option"
  self_tstat :: "vec option"
  self_pvalue :: "vec option"
  self_conf_int :: "mat option"
  self_F_stat :: "real option"

subsection \<open>\<open>_feols_input_checks\<close> and \<open>Feols.__init__\<close>\<close>

datatype pyarg = NotArray | Array1 vec | Array2 mat | ArrayN nat

fun is_ndarray :: "pyarg \<Rightarrow> bool" where
  "is_ndarray NotArray = False"
| "is_ndarray a = True"

fun ndim :: "pyarg \<Rightarrow> nat" where
  "ndim NotArray = 0"
| "ndim (Array1 v) = 1"
| "ndim (Array2 A) = 2"
| "ndim (ArrayN n) = n"

definition feols_input_checks :: "pyarg \<Rightarrow> pyarg \<Rightarrow> pyarg \<Rightarrow> error + unit" where
  "feols_input_checks Y X weights =
     (if \<not> is_ndarray Y then Inl TypeError
      else if \<not> is_ndarray X then Inl TypeError
      else if \<not> is_ndarray weights then Inl TypeError
      else if ndim Y \<noteq> 2 then Inl ValueError
      else if ndim X \<noteq> 2 then Inl ValueError
      else if ndim weights \<noteq> 2 then Inl ValueError
      else Inr ())"

definition init :: "pyarg \<Rightarrow> pyarg \<Rightarrow> pyarg \<Rightarrow> error + 'd feols" where
  "init Y X weights =
     (case feols_input_checks Y X weights of
        Inl e \<Rightarrow> Inl e
      | Inr u \<Rightarrow>
          (case (Y, X, weights) of
             (Array2 y, Array2 x, Array2 w) \<Rightarrow>
               Inr \<lparr> self_method = ''feols'', self_Y = y, self_X = x, self_Z = x,
                     self_weights = Some w, self_is_iv = False,
                     self_N = length x, self_k = ncols x,
                     self_support_crv3_inference = True, self_support_iid_inference = True,
                     self_data = None, self_fml = None, self_has_fixef = False,
                     self_ssc_dict = None, self_fit = None,
                     self_vcov_type = None, self_vcov_type_detail = None,
                     self_is_clustered = None, self_clustervar = None, self_G = None,
                     self_ssc = None, self_vcov = None,
                     self_se = None, self_tstat = None, self_pvalue = None,
                     self_conf_int = None, self_F_stat = None \<rparr>
           | other \<Rightarrow> Inl ValueError))"

subsection \<open>\<open>Feols.get_fit\<close>\<close>

definition get_fit :: "'d ext \<Rightarrow> 'd feols \<Rightarrow> error + 'd feols" where
  "get_fit np self =
     (let X = self_X self; Y = self_Y self; Z = self_Z self;
          tZX' = matmul (transpose_m Z) X;
          tZy' = matmul (transpose_m Z) Y
      in case inv_or_raise np tZX' of
           Inl e \<Rightarrow> Inl e
         | Inr tZXinv' \<Rightarrow>
             (case np_solve np tZX' tZy' of
                None \<Rightarrow> Inl LinAlgError
              | Some B \<Rightarrow>
                  let beta = flatten B;
                      Y_hat = mat_vec X beta;
                      u = vsub (flatten Y) Y_hat
                  in Inr (self\<lparr> self_fit := Some
                       \<lparr> tZX = tZX', tZy = tZy', tZXinv = tZXinv', beta_hat = beta,
                         Y_hat_link = Y_hat, u_hat = u,
                         scores = rows_times Z u,
                         hessian = matmul (transpose_m Z) Z,
                         tXZ = None, tZZinv = None \<rparr> \<rparr>)))"


subsection \<open>\<open>Feols.get_vcov\<close>\<close>

text \<open>
  \<open>self.ssc * bread @ meat @ bread\<close>: \<open>*\<close> and \<open>@\<close> have the same precedence and
  associate to the left.
\<close>

definition sandwich :: "real \<Rightarrow> mat \<Rightarrow> mat \<Rightarrow> mat" where
  "sandwich c bread meat = matmul (matmul (scal c bread) meat) bread"

text \<open>
  \<open>_tXZ @ _tZZinv\<close>: both are \<open>None\<close> on a model fitted by \<open>Feols.get_fit\<close>, and
  \<open>None @ None\<close> is a \<open>TypeError\<close>; numpy rejects a single \<open>None\<close> operand
  with \<open>ValueError\<close>.
\<close>

definition iv_operands :: "fit \<Rightarrow> error + (mat \<times> mat)" where
  "iv_operands f =
     (case tXZ f of
        None \<Rightarrow> (case tZZinv f of None \<Rightarrow> Inl TypeError | Some zzi \<Rightarrow> Inl ValueError)
      | Some xz \<Rightarrow> (case tZZinv f of None \<Rightarrow> Inl ValueError | Some zzi \<Rightarrow> Inr (xz, zzi)))"

definition compute_bread :: "'d ext \<Rightarrow> 'd feols \<Rightarrow> fit \<Rightarrow> error + mat" where
  "compute_bread np self f =
     (if self_is_iv self then
        (case iv_operands f of
           Inl e \<Rightarrow> Inl e
         | Inr (xz, zzi) \<Rightarrow> inv_or_raise np (matmul (matmul xz zzi) (tZX f)))
      else inv_or_raise np (hessian f))"

text \<open>The branch \<open>self.vcov_type == "iid"\<close>.\<close>

definition vcov_iid :: "'d ext \<Rightarrow> 'd feols \<Rightarrow> fit \<Rightarrow> mat \<Rightarrow> error option \<times> 'd feols" where
  "vcov_iid np self f bread =
     (if \<not> self_support_iid_inference self then (Some NotImplementedError, self)
      else
        let ssc = get_ssc np (self_ssc_dict self) (self_N self) (self_k self) 1 1 ''iid'';
            self1 = self\<lparr> self_ssc := Some ssc \<rparr>;
            sigma2 = sum_list (map (\<lambda>u. u ^ 2) (u_hat f)) / real_of_int (int (self_N self) - 1)
        in (None, self1\<lparr> self_vcov := Some (map (map (\<lambda>b. ssc * b * sigma2)) bread) \<rparr>))"

text \<open>
  The branch \<open>self.vcov_type == "hetero"\<close>. \<open>leverage\<close> is
  \<open>np.sum(_X * (_X @ _tZXinv), axis=1)\<close>. The local \<open>u\<close> is assigned for hetero, HC1
  and HC2 and not for HC3; \<open>tXXinv\<close> is computed and never read, but its inversion can
  raise. When the detail is none of the five names, \<open>transformed_scores\<close> is unassigned
  at its first use.
\<close>

definition leverage :: "mat \<Rightarrow> mat \<Rightarrow> vec" where
  "leverage X tZXinv' = map sum_list (map2 (map2 (*)) X (matmul X tZXinv'))"

definition hetero_scores ::
  "'d ext \<Rightarrow> 'd feols \<Rightarrow> fit \<Rightarrow> pyval \<Rightarrow> error + (vec option \<times> mat)" where
  "hetero_scores np self f detail =
     (if detail \<in> set [PStr ''hetero'', PStr ''HC1''] then Inr (Some (u_hat f), scores f)
      else if detail \<in> set [PStr ''HC2'', PStr ''HC3''] then
        (if self_is_iv self then Inl VcovTypeNotSupportedError
         else
           (case inv_or_raise np (matmul (transpose_m (self_X self)) (self_X self)) of
              Inl e \<Rightarrow> Inl e
            | Inr tXXinv \<Rightarrow>
                let lev = leverage (self_X self) (tZXinv f) in
                if detail = PStr ''HC2'' then
                  Inr (Some (map2 (\<lambda>u h. u / sqrt (1 - h)) (u_hat f) lev),
                       rows_over (scores f) (map (\<lambda>h. sqrt (1 - h)) lev))
                else
                  Inr (None, rows_over (scores f) (map (\<lambda>h. 1 - h) lev))))
      else Inl UnboundLocalError)"

definition vcov_hetero ::
  "'d ext \<Rightarrow> 'd feols \<Rightarrow> fit \<Rightarrow> mat \<Rightarrow> pyval \<Rightarrow> error option \<times> 'd feols" where
  "vcov_hetero np self f bread detail =
     (let ssc = get_ssc np (self_ssc_dict self) (self_N self) (self_k self) 1 1 ''hetero'';
          self1 = self\<lparr> self_ssc := Some ssc \<rparr>
      in case hetero_scores np self f detail of
           Inl e \<Rightarrow> (Some e, self1)
         | Inr (u, transformed_scores) \<Rightarrow>
             if self_is_iv self = False then
               let meat = matmul (transpose_m transformed_scores) transformed_scores
               in (None, self1\<lparr> self_vcov := Some (sandwich ssc bread meat) \<rparr>)
             else
               (case u of
                  None \<Rightarrow> (Some UnboundLocalError, self1)
                | Some u' \<Rightarrow>
                    (case iv_operands f of
                       Inl e \<Rightarrow> (Some e, self1)
                     | Inr (xz, zzi) \<Rightarrow>
                         let Omega = matmul (transpose_m transformed_scores) transformed_scores;
                             meat = matmul (matmul (matmul (matmul xz zzi) Omega) zzi) (tZX f)
                         in (None, self1\<lparr> self_vcov := Some (sandwich ssc bread meat) \<rparr>))))"


text \<open>
  The branch \<open>self.vcov_type == "CRV"\<close>. \<open>_data[self.clustervar]\<close> is the cluster column;
  \<open>cluster_df.isna().any()\<close> holds when some entry is missing. In the CRV1 loop
  \<open>cluster_df == g\<close> compares every label with the cluster's label \<open>g\<close>.
\<close>

definition cluster_column :: "frame option \<Rightarrow> pyval option \<Rightarrow> error + label option list" where
  "cluster_column data clustervar =
     (case data of
        None \<Rightarrow> Inl TypeError
      | Some d \<Rightarrow>
          (case clustervar of
             Some (PStr c) \<Rightarrow> (case map_of d c of None \<Rightarrow> Inl KeyError | Some cl \<Rightarrow> Inr cl)
           | other \<Rightarrow> Inl KeyError))"

definition weighted_uhat :: "mat option \<Rightarrow> vec \<Rightarrow> vec" where
  "weighted_uhat weights u =
     (case weights of None \<Rightarrow> u | Some w \<Rightarrow> map2 (*) (flatten w) u)"

definition score_g :: "nat \<Rightarrow> mat \<Rightarrow> vec \<Rightarrow> label list \<Rightarrow> label \<Rightarrow> vec" where
  "score_g k_instruments Z wu cluster_df g =
     (let Zg = select (map (\<lambda>l. l = g) cluster_df) Z;
          ug = select (map (\<lambda>l. l = g) cluster_df) wu
      in mat_vec (transpose_n k_instruments Zg) ug)"

definition crv1_meat :: "mat \<Rightarrow> mat option \<Rightarrow> vec \<Rightarrow> label list \<Rightarrow> label list \<Rightarrow> mat" where
  "crv1_meat Z weights u cluster_df clustid =
     (let k_instruments = ncols Z;
          wu = weighted_uhat weights u
      in foldl (\<lambda>meat g. madd meat (outer (score_g k_instruments Z wu cluster_df g)
                                           (score_g k_instruments Z wu cluster_df g)))
               (zeros k_instruments k_instruments) clustid)"

text \<open>
  In the CRV3 loops the mask is \<open>np.equal(ixg, group)\<close>: it compares every label of the
  cluster column with the loop counter \<open>ixg\<close>, the position of the cluster in
  \<open>clustid\<close>, and not with the cluster's label \<open>g\<close>. A string label equals no
  integer.
\<close>

definition equal_ixg :: "nat \<Rightarrow> label list \<Rightarrow> bool list" where
  "equal_ixg ixg grp = map (\<lambda>l. l = LInt (int ixg)) grp"

definition beta_jack_fast :: "'d ext \<Rightarrow> mat \<Rightarrow> mat \<Rightarrow> label list \<Rightarrow> nat \<Rightarrow> error + vec" where
  "beta_jack_fast np X Y grp ixg =
     (let tXX = matmul (transpose_m X) X;
          tXy = matmul (transpose_m X) Y;
          Xg = select (equal_ixg ixg grp) X;
          Yg = select (equal_ixg ixg grp) Y;
          tXgXg = matmul_n (ncols X) (transpose_n (ncols X) Xg) Xg
      in case pinv_or_raise np (msub tXX tXgXg) of
           Inl e \<Rightarrow> Inl e
         | Inr P \<Rightarrow>
             Inr (flatten (matmul P (msub tXy (matmul_n (ncols Y) (transpose_n (ncols X) Xg) Yg)))))"

definition drop_rows :: "bool list \<Rightarrow> frame \<Rightarrow> frame" where
  "drop_rows bs d = map (\<lambda>(c, vals). (c, select (map Not bs) vals)) d"

definition beta_jack_refit ::
  "'d ext \<Rightarrow> frame option \<Rightarrow> string option \<Rightarrow> label list \<Rightarrow> nat \<Rightarrow> error + vec" where
  "beta_jack_refit np data fml grp ixg =
     (case data of
        None \<Rightarrow> Inl TypeError
      | Some d \<Rightarrow> fixest_coef np fml (drop_rows (equal_ixg ixg grp) d))"

definition crv3_vcov :: "nat \<Rightarrow> vec \<Rightarrow> vec list \<Rightarrow> mat" where
  "crv3_vcov k_params beta_center beta_jack =
     foldl (\<lambda>V bj. madd V (outer (vsub bj beta_center) (vsub bj beta_center)))
           (zeros k_params k_params) beta_jack"

definition vcov_crv ::
  "'d ext \<Rightarrow> 'd feols \<Rightarrow> fit \<Rightarrow> mat \<Rightarrow> pyval \<Rightarrow> error option \<times> 'd feols" where
  "vcov_crv np self f bread detail =
     (case cluster_column (self_data self) (self_clustervar self) of
        Inl e \<Rightarrow> (Some e, self)
      | Inr col_df \<Rightarrow>
          (case those col_df of
             None \<Rightarrow> (Some NanInClusterVarError, self)
           | Some cluster_df \<Rightarrow>
               let clustid = uniques cluster_df;
                   self1 = self\<lparr> self_G := Some (length clustid) \<rparr>;
                   ssc = get_ssc np (self_ssc_dict self) (self_N self) (self_k self)
                           (length clustid) 1 ''CRV'';
                   self2 = self1\<lparr> self_ssc := Some ssc \<rparr>
               in
                 if detail = PStr ''CRV1'' then
                   (let meat = crv1_meat (self_Z self) (self_weights self) (u_hat f) cluster_df clustid
                    in if self_is_iv self = False then
                         (None, self2\<lparr> self_vcov := Some (sandwich ssc bread meat) \<rparr>)
                       else
                         (case iv_operands f of
                            Inl e \<Rightarrow> (Some e, self2)
                          | Inr (xz, zzi) \<Rightarrow>
                              let meat' = matmul (matmul (matmul (matmul xz zzi) meat) zzi) (tZX f)
                              in (None, self2\<lparr> self_vcov := Some (sandwich ssc bread meat') \<rparr>)))
                 else if detail = PStr ''CRV3'' then
                   (if self_is_iv self then (Some VcovTypeNotSupportedError, self2)
                    else if \<not> self_support_crv3_inference self then (Some NotImplementedError, self2)
                    else
                      (case collect
                              (map (\<lambda>ixg.
                                      if self_has_fixef self = False then
                                        beta_jack_fast np (self_X self) (self_Y self) cluster_df ixg
                                      else
                                        beta_jack_refit np (self_data self) (self_fml self) cluster_df ixg)
                                   [0..<length clustid]) of
                         Inl e \<Rightarrow> (Some e, self2)
                       | Inr beta_jack \<Rightarrow>
                           (None, self2\<lparr> self_vcov :=
                              Some (scal ssc (crv3_vcov (self_k self) (beta_hat f) beta_jack)) \<rparr>)))
                 else (None, self2)))"

text \<open>
  \<open>get_vcov\<close> reads the fitted attributes, then sets the seven result fields to
  \<open>None\<close>, and only then validates the request. The test at lines 190 to 194 compares
  \<open>self.vcov_type\<close> with \<open>"CRV3"\<close>.
\<close>

definition reset_vcov :: "'d feols \<Rightarrow> 'd feols" where
  "reset_vcov self =
     self\<lparr> self_vcov_type := None, self_vcov_type_detail := None, self_is_clustered := None,
           self_clustervar := None, self_G := None, self_ssc := None, self_vcov := None \<rparr>"

definition get_vcov :: "'d ext \<Rightarrow> pyval \<Rightarrow> 'd feols \<Rightarrow> error option \<times> 'd feols" where
  "get_vcov np vcov self =
     (case self_fit self of
        None \<Rightarrow> (Some AttributeError, self)
      | Some f \<Rightarrow>
          let self0 = reset_vcov self in
          (case check_vcov_input vcov (self_data self) of
             Inl e \<Rightarrow> (Some e, self0)
           | Inr u \<Rightarrow>
               (case deparse_vcov_input vcov (self_has_fixef self) (self_is_iv self) of
                  Inl e \<Rightarrow> (Some e, self0)
                | Inr (vcov_type, vcov_type_detail, is_clustered, clustervar) \<Rightarrow>
                    let self1 = self0\<lparr> self_vcov_type := Some vcov_type,
                                       self_vcov_type_detail := Some vcov_type_detail,
                                       self_is_clustered := Some is_clustered,
                                       self_clustervar := clustervar \<rparr>
                    in
                      if self_is_iv self \<and> vcov_type \<in> set [''CRV3''] then
                        (Some VcovTypeNotSupportedError, self1)
                      else
                        (case compute_bread np self f of
                           Inl e \<Rightarrow> (Some e, self1)
                         | Inr bread \<Rightarrow>
                             if vcov_type = ''iid'' then vcov_iid np self1 f bread
                             else if vcov_type = ''hetero'' then
                               vcov_hetero np self1 f bread vcov_type_detail
                             else if vcov_type = ''CRV'' then
                               vcov_crv np self1 f bread vcov_type_detail
                             else (None, self1)))))"


subsection \<open>\<open>Feols.get_inference\<close>\<close>

text \<open>
  \<open>np.diagonal\<close> rejects \<open>None\<close>, the value of \<open>self.vcov\<close> after a failed
  \<open>get_vcov\<close>. The degrees of freedom are Python integers; \<open>_G - 1\<close> is a
  \<open>TypeError\<close> while \<open>self.G\<close> is \<open>None\<close>.
\<close>

definition vadd :: "vec \<Rightarrow> vec \<Rightarrow> vec" where
  "vadd u v = map2 (+) u v"

definition inference_df :: "'d feols \<Rightarrow> error + int" where
  "inference_df self =
     (if self_vcov_type self \<in> set [Some ''iid'', Some ''hetero''] then
        Inr (int (self_N self) - int (self_k self))
      else (case self_G self of None \<Rightarrow> Inl TypeError | Some g \<Rightarrow> Inr (int g - 1)))"

definition get_inference :: "'d ext \<Rightarrow> real \<Rightarrow> 'd feols \<Rightarrow> error option \<times> 'd feols" where
  "get_inference np alpha self =
     (case self_fit self of
        None \<Rightarrow> (Some AttributeError, self)
      | Some f \<Rightarrow>
          let self0 = self\<lparr> self_se := None, self_tstat := None, self_pvalue := None,
                            self_conf_int := None \<rparr>
          in case self_vcov self of
               None \<Rightarrow> (Some ValueError, self0)
             | Some V \<Rightarrow>
                 let se = map sqrt (diagonal V);
                     self1 = self0\<lparr> self_se := Some se \<rparr>;
                     tstat = map2 (/) (beta_hat f) se;
                     self2 = self1\<lparr> self_tstat := Some tstat \<rparr>
                 in case inference_df self of
                      Inl e \<Rightarrow> (Some e, self2)
                    | Inr df \<Rightarrow>
                        let pvalue =
                              (if self_method self = ''feols'' then
                                 map (\<lambda>t. 2 * (1 - t_cdf np \<bar>t\<bar> df)) tstat
                               else map (\<lambda>t. 2 * (1 - norm_cdf np \<bar>t\<bar>)) tstat);
                            z = (if self_method self = ''feols'' then \<bar>t_ppf np ((1 - alpha) / 2) df\<bar>
                                 else \<bar>norm_ppf np ((1 - alpha) / 2)\<bar>);
                            self3 = self2\<lparr> self_pvalue := Some pvalue \<rparr>;
                            z_se = map (\<lambda>s. z * s) se
                        in (None, self3\<lparr> self_conf_int :=
                                     Some [vsub (beta_hat f) z_se, vadd (beta_hat f) z_se] \<rparr>))"

subsection \<open>\<open>Feols.get_Ftest\<close>\<close>

text \<open>
  For an IV model the method builds \<open>Feols(self.Y, self.Z, self.Z)\<close>, fits it, calls its
  \<open>get_vcov\<close> and binds the result to the local name \<open>vcov\<close>; otherwise the local
  \<open>vcov\<close> is \<open>self.vcov\<close>. The statistic on the last line is computed from
  \<open>self.vcov\<close>. The parameter \<open>is_iv\<close> is never read.
\<close>

definition first_stage_vcov :: "'d ext \<Rightarrow> pyval \<Rightarrow> 'd feols \<Rightarrow> error + mat option" where
  "first_stage_vcov np vcov self =
     (case init (Array2 (self_Y self)) (Array2 (self_Z self)) (Array2 (self_Z self)) of
        Inl e \<Rightarrow> Inl e
      | Inr first_stage \<Rightarrow>
          (case get_fit np first_stage of
             Inl e \<Rightarrow> Inl e
           | Inr fitted \<Rightarrow>
               (case get_vcov np vcov fitted of
                  (Some e, s) \<Rightarrow> Inl e
                | (None, s) \<Rightarrow> Inr (self_vcov s))))"

definition F_statistic :: "'d ext \<Rightarrow> mat \<Rightarrow> vec \<Rightarrow> mat \<Rightarrow> error + real" where
  "F_statistic np R Rbetaq V =
     (case inv_or_raise np (matmul (matmul R V) (transpose_m R)) of
        Inl e \<Rightarrow> Inl e
      | Inr M \<Rightarrow> Inr (dot (vec_mat Rbetaq M) Rbetaq))"

definition get_Ftest :: "'d ext \<Rightarrow> pyval \<Rightarrow> 'd feols \<Rightarrow> error option \<times> 'd feols" where
  "get_Ftest np vcov self =
     (case self_fit self of
        None \<Rightarrow> (Some AttributeError, self)
      | Some f \<Rightarrow>
          let R = [replicate (self_k self) 1];
              q = 0;
              Rbetaq = map (\<lambda>x. x - q) (mat_vec R (beta_hat f))
          in case (if self_is_iv self then first_stage_vcov np vcov self
                   else Inr (self_vcov self)) of
               Inl e \<Rightarrow> (Some e, self)
             | Inr vcov_local \<Rightarrow>
                 (case self_vcov self of
                    None \<Rightarrow> (Some ValueError, self)
                  | Some V \<Rightarrow>
                      (case F_statistic np R Rbetaq V of
                         Inl e \<Rightarrow> (Some e, self)
                       | Inr F \<Rightarrow> (None, self\<lparr> self_F_stat := Some F \<rparr>))))"

subsection \<open>A reference instance of the collaborators\<close>

text \<open>
  To run the model on concrete inputs the parameters need values. \<open>inv_small\<close> inverts
  arrays of order one and two exactly and raises on singular and on larger ones;
  \<open>pinv_small\<close> is the Moore-Penrose inverse on the same orders. The correction factor
  is the sign alone, and the distribution functions are placeholders: every theorem below
  that is not an evaluation holds for all collaborators.
\<close>

fun inv_small :: "mat \<Rightarrow> mat option" where
  "inv_small [[a]] = (if a = 0 then None else Some [[1 / a]])"
| "inv_small [[a, b], [c, d]] =
     (if a * d - b * c = 0 then None
      else Some [[d / (a * d - b * c), - b / (a * d - b * c)],
                 [- c / (a * d - b * c), a / (a * d - b * c)]])"
| "inv_small A = None"

definition solve_small :: "mat \<Rightarrow> mat \<Rightarrow> mat option" where
  "solve_small A B = (case inv_small A of None \<Rightarrow> None | Some Ai \<Rightarrow> Some (matmul Ai B))"

fun pinv_small :: "mat \<Rightarrow> mat option" where
  "pinv_small [[a]] = (if a = 0 then Some [[0]] else Some [[1 / a]])"
| "pinv_small [[a, b], [c, d]] =
     (if a * d - b * c \<noteq> 0 then inv_small [[a, b], [c, d]]
      else if a = 0 \<and> b = 0 \<and> c = 0 \<and> d = 0 then Some [[0, 0], [0, 0]]
      else Some (scal (1 / (a ^ 2 + b ^ 2 + c ^ 2 + d ^ 2)) [[a, c], [b, d]]))"
| "pinv_small A = None"

definition ref_ext :: "unit ext" where
  "ref_ext =
     \<lparr> np_inv = inv_small, np_solve = solve_small, np_pinv = pinv_small,
       get_ssc = (\<lambda>ssc_dict N k G vcov_sign vcov_type. real_of_int vcov_sign),
       t_cdf = (\<lambda>x df. 1 / 2), t_ppf = (\<lambda>p df. 2),
       norm_cdf = (\<lambda>x. 1 / 2), norm_ppf = (\<lambda>p. 2),
       fixest_coef = (\<lambda>fml data. Inl RefitError) \<rparr>"


subsection \<open>Concrete models\<close>

text \<open>
  Two observations, one regressor: \<open>Y = [0, 2]\<close>, \<open>X = [1, 1]\<close>, unit weights. The
  enclosing layer attaches the data frame after construction. Column \<open>c\<close> puts each
  observation in a cluster of its own; \<open>ex_relabelled\<close> names the same two clusters
  5 and 7 instead of 0 and 1; column \<open>gap\<close> has a missing value.
\<close>

definition ex_Y :: mat where "ex_Y = [[0], [2]]"
definition ex_X :: mat where "ex_X = [[1], [1]]"
definition ex_W :: mat where "ex_W = [[1], [1]]"

definition ex_data :: frame where
  "ex_data = [(''c'', [Some (LInt 0), Some (LInt 1)]), (''gap'', [Some (LInt 5), None])]"

definition ex_relabelled :: frame where
  "ex_relabelled = [(''c'', [Some (LInt 5), Some (LInt 7)]), (''gap'', [Some (LInt 5), None])]"

definition fit_model :: "'d ext \<Rightarrow> mat \<Rightarrow> mat \<Rightarrow> mat \<Rightarrow> frame \<Rightarrow> error + 'd feols" where
  "fit_model np Y X W d =
     (case init (Array2 Y) (Array2 X) (Array2 W) of
        Inl e \<Rightarrow> Inl e
      | Inr self \<Rightarrow> get_fit np (self\<lparr> self_data := Some d \<rparr>))"

definition ex_model :: "unit feols" where
  "ex_model =
     \<lparr> self_method = ''feols'', self_Y = [[0], [2]], self_X = [[1], [1]], self_Z = [[1], [1]],
       self_weights = Some [[1], [1]], self_is_iv = False, self_N = 2, self_k = 1,
       self_support_crv3_inference = True, self_support_iid_inference = True,
       self_data = Some ex_data, self_fml = None, self_has_fixef = False,
       self_ssc_dict = None,
       self_fit = Some \<lparr> tZX = [[2]], tZy = [[2]], tZXinv = [[1 / 2]], beta_hat = [1],
                         Y_hat_link = [1, 1], u_hat = [- 1, 1], scores = [[- 1], [1]],
                         hessian = [[2]], tXZ = None, tZZinv = None \<rparr>,
       self_vcov_type = None, self_vcov_type_detail = None, self_is_clustered = None,
       self_clustervar = None, self_G = None, self_ssc = None, self_vcov = None,
       self_se = None, self_tstat = None, self_pvalue = None, self_conf_int = None,
       self_F_stat = None \<rparr>"

text \<open>
  An IV model as the IV subclass leaves it: \<open>Y = [1, 3]\<close>, regressor \<open>X = [1, 2]\<close>,
  instrument \<open>Z = [1, 1]\<close>, so \<open>Z'X = 3\<close>, \<open>Z'Y = 4\<close>, \<open>beta = 4/3\<close>,
  \<open>X'Z = 3\<close> and \<open>(Z'Z)^-1 = 1/2\<close>.
\<close>

definition ex_iv :: "unit feols" where
  "ex_iv =
     \<lparr> self_method = ''feols'', self_Y = [[1], [3]], self_X = [[1], [2]], self_Z = [[1], [1]],
       self_weights = Some [[1], [1]], self_is_iv = True, self_N = 2, self_k = 1,
       self_support_crv3_inference = True, self_support_iid_inference = True,
       self_data = Some ex_data, self_fml = None, self_has_fixef = False,
       self_ssc_dict = None,
       self_fit = Some \<lparr> tZX = [[3]], tZy = [[4]], tZXinv = [[1 / 3]], beta_hat = [4 / 3],
                         Y_hat_link = [4 / 3, 8 / 3], u_hat = [- 1 / 3, 1 / 3],
                         scores = [[- 1 / 3], [1 / 3]], hessian = [[2]],
                         tXZ = Some [[3]], tZZinv = Some [[1 / 2]] \<rparr>,
       self_vcov_type = None, self_vcov_type_detail = None, self_is_clustered = None,
       self_clustervar = None, self_G = None, self_ssc = None, self_vcov = None,
       self_se = None, self_tstat = None, self_pvalue = None, self_conf_int = None,
       self_F_stat = None \<rparr>"

text \<open>
  The leave-one-cluster-out coefficients as the comment in the source describes them: for
  the cluster with label \<open>g\<close> the rows carrying that label are left out.
\<close>

definition select_label :: "label \<Rightarrow> label list \<Rightarrow> bool list" where
  "select_label g grp = map (\<lambda>l. l = g) grp"

definition beta_jack_by_label :: "'d ext \<Rightarrow> mat \<Rightarrow> mat \<Rightarrow> label list \<Rightarrow> label \<Rightarrow> error + vec" where
  "beta_jack_by_label np X Y grp g =
     (let tXX = matmul (transpose_m X) X;
          tXy = matmul (transpose_m X) Y;
          Xg = select (select_label g grp) X;
          Yg = select (select_label g grp) Y;
          tXgXg = matmul_n (ncols X) (transpose_n (ncols X) Xg) Xg
      in case pinv_or_raise np (msub tXX tXgXg) of
           Inl e \<Rightarrow> Inl e
         | Inr P \<Rightarrow>
             Inr (flatten (matmul P (msub tXy (matmul_n (ncols Y) (transpose_n (ncols X) Xg) Yg)))))"

text \<open>
  Three observations, two regressors. The first observation is the only one with a non-zero
  entry in the first column, so its leverage is \<open>1\<close>.
\<close>

definition lev_Y :: mat where "lev_Y = [[1], [2], [4]]"
definition lev_X :: mat where "lev_X = [[1, 0], [0, 1], [0, 1]]"


definition lev_model :: "unit feols" where
  "lev_model =
     \<lparr> self_method = ''feols'', self_Y = [[1], [2], [4]], self_X = [[1, 0], [0, 1], [0, 1]],
       self_Z = [[1, 0], [0, 1], [0, 1]],
       self_weights = Some [[1], [1], [1]], self_is_iv = False, self_N = 3, self_k = 2,
       self_support_crv3_inference = True, self_support_iid_inference = True,
       self_data = Some [], self_fml = None, self_has_fixef = False,
       self_ssc_dict = None,
       self_fit = Some \<lparr> tZX = [[1, 0], [0, 2]], tZy = [[1], [6]],
                         tZXinv = [[1, 0], [0, 1 / 2]], beta_hat = [1, 3],
                         Y_hat_link = [1, 3, 3], u_hat = [0, - 1, 1],
                         scores = [[0, 0], [0, - 1], [0, 1]],
                         hessian = [[1, 0], [0, 2]], tXZ = None, tZZinv = None \<rparr>,
       self_vcov_type = None, self_vcov_type_detail = None, self_is_clustered = None,
       self_clustervar = None, self_G = None, self_ssc = None, self_vcov = None,
       self_se = None, self_tstat = None, self_pvalue = None, self_conf_int = None,
       self_F_stat = None \<rparr>"

text \<open>
  \<open>is_mat n p A\<close>: the array \<open>A\<close> has the shape \<open>(n, p)\<close>. \<open>solve_contract\<close>
  is what numpy documents for \<open>np.linalg.solve\<close>, in exact arithmetic: when it returns on
  a square system, the result has the shape of the right-hand side and solves the system.
\<close>

definition is_mat :: "nat \<Rightarrow> nat \<Rightarrow> mat \<Rightarrow> bool" where
  "is_mat n p A \<longleftrightarrow> length A = n \<and> (\<forall>r \<in> set A. length r = p)"

definition solve_contract :: "'d ext \<Rightarrow> bool" where
  "solve_contract np \<longleftrightarrow>
     (\<forall>A B S n p. is_mat n n A \<and> is_mat n p B \<and> 0 < n \<and> np_solve np A B = Some S
        \<longrightarrow> is_mat n p S \<and> matmul A S = B)"

text \<open>Two objects that differ in the field \<open>weights\<close> at most.\<close>

definition eq_upto_weights :: "'d feols \<Rightarrow> 'd feols \<Rightarrow> bool" where
  "eq_upto_weights s t \<longleftrightarrow> (\<exists>w. t = s\<lparr> self_weights := w \<rparr>)"

section \<open>Properties\<close>

lemmas model_defs =
  init_def feols_input_checks_def get_fit_def fit_model_def inv_or_raise_def pinv_or_raise_def
  ref_ext_def solve_small_def matmul_def matmul_n_def transpose_m_def transpose_n_def ncols_def
  col_def dot_def mat_vec_def vec_mat_def flatten_def scal_def vsub_def vadd_def madd_def msub_def
  outer_def zeros_def rows_times_def rows_over_def diagonal_def select_def get_vcov_def
  reset_vcov_def check_vcov_input_def deparse_vcov_input_def vcov_detail_def first_value_def
  in_columns_def columns_def compute_bread_def iv_operands_def vcov_iid_def vcov_hetero_def
  hetero_scores_def leverage_def vcov_crv_def cluster_column_def weighted_uhat_def score_g_def
  crv1_meat_def equal_ixg_def beta_jack_fast_def crv3_vcov_def sandwich_def Let_def
  upt_conv_Cons ex_Y_def ex_X_def ex_W_def ex_data_def ex_relabelled_def ex_model_def ex_iv_def
  select_label_def beta_jack_by_label_def get_Ftest_def first_stage_vcov_def F_statistic_def
  power2_eq_square lev_Y_def lev_X_def lev_model_def

lemma ex_model_fitted: "fit_model ref_ext ex_Y ex_X ex_W ex_data = Inr ex_model"
  by (simp add: model_defs)

lemma ex_iv_fit:
  "map_sum id (\<lambda>s. map_option (\<lambda>f. f\<lparr> tXZ := Some [[3]], tZZinv := Some [[1 / 2]] \<rparr>) (self_fit s))
     (get_fit ref_ext (ex_iv\<lparr> self_fit := None \<rparr>)) = Inr (self_fit ex_iv)"
  by (simp add: model_defs)

subsection \<open>Request validation and deparsing\<close>

lemma deparse_list: "deparse_vcov_input (PList vs) has_fixef is_iv = Inl UnboundLocalError"
  by (simp add: deparse_vcov_input_def vcov_detail_def)

lemma deparse_vcov_type:
  assumes "deparse_vcov_input vcov has_fixef is_iv = Inr (ty, de, cl, cv)"
  shows "ty \<in> {''iid'', ''hetero'', ''CRV''}"
  using assms
  by (auto simp: deparse_vcov_input_def split: sum.splits if_splits)

lemma check_list_ok:
  assumes "set cs \<subseteq> set (columns d)"
  shows "check_vcov_input (PList (map PStr cs)) (Some d) = Inr ()"
  using assms by (auto simp: check_vcov_input_def list_all_iff)

lemma vcov_iid_error:
  "vcov_iid np self f bread = (Some e, self') \<Longrightarrow> self' = self"
  by (auto simp: vcov_iid_def Let_def split: if_splits)

lemma vcov_hetero_error:
  "vcov_hetero np self f bread detail = (Some e, self') \<Longrightarrow> self_vcov self' = self_vcov self"
  by (auto simp: vcov_hetero_def Let_def split: if_splits sum.splits option.splits prod.splits)

lemma vcov_crv_error:
  "vcov_crv np self f bread detail = (Some e, self') \<Longrightarrow> self_vcov self' = self_vcov self"
  by (auto simp: vcov_crv_def Let_def split: if_splits sum.splits option.splits prod.splits)

lemma reset_vcov_vcov: "self_vcov (reset_vcov self) = None"
  by (simp add: reset_vcov_def)

text \<open>
  C9. A request that is a list of names of columns of the data passes
  \<open>_check_vcov_input\<close>; \<open>get_vcov\<close> then raises \<open>UnboundLocalError\<close> from
  \<open>_deparse_vcov_input\<close>, with the result fields still at the \<open>None\<close> of the reset:
  a list-valued request never yields a covariance matrix.
\<close>

theorem list_vcov_unbound_local:
  assumes "self_fit self = Some f" and "self_data self = Some d"
    and "set cs \<subseteq> set (columns d)"
  shows "check_vcov_input (PList (map PStr cs)) (self_data self) = Inr ()
       \<and> get_vcov np (PList (map PStr cs)) self = (Some UnboundLocalError, reset_vcov self)
       \<and> self_vcov (snd (get_vcov np (PList (map PStr cs)) self)) = None"
  using assms check_list_ok[OF assms(3)]
  by (simp add: get_vcov_def deparse_list reset_vcov_vcov)

theorem list_vcov_unbound_local_witness:
  "check_vcov_input (PList (map PStr [''c'', ''gap''])) (self_data ex_model) = Inr ()
   \<and> get_vcov ref_ext (PList (map PStr [''c'', ''gap''])) ex_model
       = (Some UnboundLocalError, reset_vcov ex_model)
   \<and> self_vcov (snd (get_vcov ref_ext (PList (map PStr [''c'', ''gap''])) ex_model)) = None"
proof -
  have fitted: "self_fit ex_model = Some \<lparr> tZX = [[2]], tZy = [[2]], tZXinv = [[1 / 2]],
      beta_hat = [1], Y_hat_link = [1, 1], u_hat = [- 1, 1], scores = [[- 1], [1]],
      hessian = [[2]], tXZ = None, tZZinv = None \<rparr>"
    by (simp add: ex_model_def)
  have data: "self_data ex_model = Some ex_data"
    by (simp add: ex_model_def)
  have cols: "set [''c'', ''gap''] \<subseteq> set (columns ex_data)"
    by (simp add: columns_def ex_data_def)
  show ?thesis
    using list_vcov_unbound_local [OF fitted data cols, of ref_ext]
    by (simp add: reset_vcov_vcov)
qed

text \<open>
  C10. \<open>get_vcov\<close> sets \<open>vcov\<close>, \<open>ssc\<close>, \<open>G\<close>, \<open>vcov_type\<close> and the other
  fields of the request to \<open>None\<close> before it validates the request. On a fitted model,
  whenever the call raises, \<open>self.vcov\<close> is \<open>None\<close> afterwards, whatever it held
  before; when the exception comes from the validation or from the deparsing, every one of
  the seven fields is \<open>None\<close>.
\<close>

theorem get_vcov_error_erases_vcov:
  assumes "self_fit self = Some f" and "get_vcov np vcov self = (Some e, self')"
  shows "self_vcov self' = None
       \<and> (check_vcov_input vcov (self_data self) = Inl e \<longrightarrow> self' = reset_vcov self)
       \<and> (deparse_vcov_input vcov (self_has_fixef self) (self_is_iv self) = Inl e
            \<and> check_vcov_input vcov (self_data self) = Inr () \<longrightarrow> self' = reset_vcov self)"
  using assms
  by (auto simp: get_vcov_def Let_def reset_vcov_def
      split: if_splits sum.splits option.splits prod.splits
      dest!: vcov_iid_error vcov_hetero_error vcov_crv_error)

theorem get_vcov_error_erases_vcov_witness:
  "self_vcov (ex_model\<lparr> self_vcov := Some [[1]] \<rparr>) = Some [[1]]
   \<and> fst (get_vcov ref_ext (PStr ''HC4'') (ex_model\<lparr> self_vcov := Some [[1]] \<rparr>)) = Some AssertionError
   \<and> self_vcov (snd (get_vcov ref_ext (PStr ''HC4'') (ex_model\<lparr> self_vcov := Some [[1]] \<rparr>))) = None"
proof -
  let ?m = "ex_model\<lparr> self_vcov := Some [[1]] \<rparr>"
  have fitted: "self_fit ?m = Some \<lparr> tZX = [[2]], tZy = [[2]], tZXinv = [[1 / 2]],
      beta_hat = [1], Y_hat_link = [1, 1], u_hat = [- 1, 1], scores = [[- 1], [1]],
      hessian = [[2]], tXZ = None, tZZinv = None \<rparr>"
    by (simp add: ex_model_def)
  have run: "get_vcov ref_ext (PStr ''HC4'') ?m = (Some AssertionError, reset_vcov ?m)"
    by (simp add: get_vcov_def check_vcov_input_def ex_model_def)
  show ?thesis
    using get_vcov_error_erases_vcov [OF fitted run] run by (simp add: ex_model_def)
qed


subsection \<open>Unsupported combinations\<close>

lemma hc2_hc3_rejected:
  assumes "self_fit self = Some f" and "d \<in> {''HC2'', ''HC3''}"
    and "self_has_fixef self \<or> self_is_iv self"
  shows "get_vcov np (PStr d) self = (Some VcovTypeNotSupportedError, reset_vcov self)"
  using assms
  by (auto simp: get_vcov_def check_vcov_input_def deparse_vcov_input_def vcov_detail_def)

lemma early_crv3_guard_never_fires:
  assumes "deparse_vcov_input vcov has_fixef is_iv = Inr (vcov_type, de, cl, cv)"
  shows "vcov_type \<notin> set [''CRV3'']"
  using deparse_vcov_type [OF assms] by auto

lemma crv3_iv_never_stores_vcov:
  assumes "self_fit self = Some f" and "self_is_iv self"
  shows "fst (get_vcov np (PDict ((PStr ''CRV3'', v) # rest)) self) \<noteq> None
       \<and> self_vcov (snd (get_vcov np (PDict ((PStr ''CRV3'', v) # rest)) self)) = None"
  using assms
  by (auto simp: get_vcov_def Let_def reset_vcov_def deparse_vcov_input_def vcov_detail_def
      first_value_def vcov_crv_def
      split: sum.splits option.splits prod.splits)

lemma crv3_iv_rejected_after_bread_and_nan_check:
  assumes "self_fit self = Some f" and "self_is_iv self"
    and "self_data self = Some d" and "map_of d c = Some cl" and "those cl = Some labels"
    and "compute_bread np self f = Inr bread"
  shows "fst (get_vcov np (PDict [(PStr ''CRV3'', PStr c)]) self) = Some VcovTypeNotSupportedError"
proof -
  have "c \<in> set (columns d)"
    using assms(4) by (auto simp: columns_def dest: map_of_SomeD intro: rev_image_eqI)
  then have chk: "check_vcov_input (PDict [(PStr ''CRV3'', PStr c)]) (Some d) = Inr ()"
    by (auto simp: check_vcov_input_def in_columns_def)
  have dep: "deparse_vcov_input (PDict [(PStr ''CRV3'', PStr c)]) h i
      = Inr (''CRV'', PStr ''CRV3'', True, Some (PStr c))" for h i
    by (simp add: deparse_vcov_input_def vcov_detail_def first_value_def)
  show ?thesis
    using assms
    by (simp add: get_vcov_def chk dep Let_def vcov_crv_def cluster_column_def reset_vcov_def)
qed

text \<open>
  C3. HC2 and HC3 on a model with fixed effects or on an IV model are rejected by
  \<open>_deparse_vcov_input\<close> (\<open>hc2_hc3_rejected\<close>). For CRV3 on an IV model the guard
  at lines 190 to 194 tests \<open>self.vcov_type\<close>, which is \<open>"CRV"\<close> for every cluster
  request, against \<open>"CRV3"\<close> and never fires (\<open>early_crv3_guard_never_fires\<close>); the
  rejection is reached only at line 323, after the bread matrix and the check for missing
  cluster values. On the IV model \<open>ex_iv\<close> with the cluster column \<open>gap\<close>, which has
  a missing value, the call raises \<open>NanInClusterVarError\<close> and not
  \<open>VcovTypeNotSupportedError\<close>.
\<close>

theorem crv3_iv_missing_value_raises_nan_error:
  "get_vcov ref_ext (PDict [(PStr ''CRV3'', PStr ''gap'')]) ex_iv
     = (Some NanInClusterVarError,
        (reset_vcov ex_iv)\<lparr> self_vcov_type := Some ''CRV'',
                              self_vcov_type_detail := Some (PStr ''CRV3''),
                              self_is_clustered := Some True,
                              self_clustervar := Some (PStr ''gap'') \<rparr>)"
  by (simp add: model_defs)

lemma crv3_iv_complete_column_rejected:
  "fst (get_vcov ref_ext (PDict [(PStr ''CRV3'', PStr ''c'')]) ex_iv)
     = Some VcovTypeNotSupportedError"
  by (simp add: model_defs)

subsection \<open>The CRV3 jackknife\<close>

text \<open>
  The CRV1 loop depends on the partition only: an injective renaming of the labels leaves
  the meat unchanged. The fast CRV3 path selects the rows of a cluster when the labels are
  the positions \<open>0, 1, ...\<close> in the order of first appearance.
\<close>

lemma uniques_map_inj:
  assumes "inj r"
  shows "uniques (map r xs) = map r (uniques xs)"
proof (induction xs rule: uniques.induct)
  case 1
  then show ?case by simp
next
  case (2 x xs)
  have "filter (\<lambda>y. y \<noteq> r x) (map r xs) = map r (filter (\<lambda>y. y \<noteq> x) xs)"
    using assms by (simp add: filter_map comp_def inj_eq)
  with 2 show ?case by simp
qed

lemma score_g_relabel:
  assumes "inj r"
  shows "score_g k Z wu (map r grp) (r g) = score_g k Z wu grp g"
  using assms by (simp add: score_g_def comp_def inj_eq)

lemma crv1_meat_relabel:
  assumes "inj r"
  shows "crv1_meat Z w u (map r grp) (uniques (map r grp)) = crv1_meat Z w u grp (uniques grp)"
  using assms
  by (simp add: crv1_meat_def Let_def uniques_map_inj foldl_map score_g_relabel)

lemma crv3_fast_agrees_when_labels_are_positions:
  assumes "uniques grp = map (\<lambda>i. LInt (int i)) [0..<G]"
  shows "map (beta_jack_fast np X Y grp) [0..<G] = map (beta_jack_by_label np X Y grp) (uniques grp)"
  by (simp add: assms beta_jack_fast_def beta_jack_by_label_def equal_ixg_def select_label_def comp_def)

text \<open>
  C2. On \<open>ex_model\<close> with the clusters named 5 and 7, no label equals a loop counter
  \<open>0\<close> or \<open>1\<close>: the mask \<open>np.equal(ixg, group)\<close> selects no row, each
  \<open>beta_jack\<close> row is the full-sample estimate, and the stored matrix is zero. Leaving
  out the rows of each cluster gives the coefficients 2 and 0 and the matrix
  \<open>ssc * ((2 - 1)^2 + (0 - 1)^2) = 2\<close>.
\<close>

theorem crv3_mask_compares_labels_with_positions:
  "get_vcov ref_ext (PDict [(PStr ''CRV3'', PStr ''c'')]) (ex_model\<lparr> self_data := Some ex_relabelled \<rparr>)
     = (None, ex_model\<lparr> self_data := Some ex_relabelled,
                         self_vcov_type := Some ''CRV'',
                         self_vcov_type_detail := Some (PStr ''CRV3''),
                         self_is_clustered := Some True,
                         self_clustervar := Some (PStr ''c''),
                         self_G := Some 2, self_ssc := Some 1, self_vcov := Some [[0]] \<rparr>)
   \<and> collect (map (beta_jack_fast ref_ext ex_X ex_Y [LInt 5, LInt 7]) [0, 1]) = Inr [[1], [1]]
   \<and> collect (map (beta_jack_by_label ref_ext ex_X ex_Y [LInt 5, LInt 7]) [LInt 5, LInt 7])
       = Inr [[2], [0]]
   \<and> scal 1 (crv3_vcov 1 [1] [[2], [0]]) = [[2]]"
  by (simp add: model_defs)

text \<open>
  C6. The same model and the same request, with the two clusters named 0 and 1 in one data
  frame and 5 and 7 in the other: the CRV3 matrix is 2 in the first and 0 in the second.
  The CRV1 loop compares with the label (\<open>cluster_df == g\<close>) and gives the same matrix
  for both.
\<close>

theorem crv3_depends_on_cluster_labels:
  "self_vcov (snd (get_vcov ref_ext (PDict [(PStr ''CRV3'', PStr ''c'')]) ex_model)) = Some [[2]]
   \<and> self_vcov (snd (get_vcov ref_ext (PDict [(PStr ''CRV3'', PStr ''c'')])
                       (ex_model\<lparr> self_data := Some ex_relabelled \<rparr>))) = Some [[0]]
   \<and> self_vcov (snd (get_vcov ref_ext (PDict [(PStr ''CRV1'', PStr ''c'')]) ex_model))
       = self_vcov (snd (get_vcov ref_ext (PDict [(PStr ''CRV1'', PStr ''c'')])
                           (ex_model\<lparr> self_data := Some ex_relabelled \<rparr>)))"
  by (simp add: model_defs)

subsection \<open>The F test\<close>

lemma get_Ftest_uses_own_vcov:
  assumes "self_fit self = Some f" and "get_Ftest np vcov self = (None, self')"
  shows "\<exists>V F. self_vcov self = Some V
     \<and> F_statistic np [replicate (self_k self) 1]
         (map (\<lambda>x. x - 0) (mat_vec [replicate (self_k self) 1] (beta_hat f))) V = Inr F
     \<and> self' = self\<lparr> self_F_stat := Some F \<rparr>"
  using assms
  by (auto simp: get_Ftest_def Let_def split: sum.splits option.splits if_splits)

text \<open>
  C4. On the IV model \<open>ex_iv\<close> with its iid covariance \<open>4/81\<close> stored, the first-stage
  regression of \<open>Y\<close> on the instrument has the covariance \<open>1\<close>. \<open>get_Ftest\<close>
  stores \<open>36 = (4/3)^2 / (4/81)\<close>, the statistic against the model's own covariance;
  against the covariance of the first stage it would be \<open>16/9\<close>.
\<close>

theorem get_Ftest_ignores_first_stage_vcov:
  "self_vcov (snd (get_vcov ref_ext (PStr ''iid'') ex_iv)) = Some [[4 / 81]]
   \<and> first_stage_vcov ref_ext (PStr ''iid'') (snd (get_vcov ref_ext (PStr ''iid'') ex_iv))
       = Inr (Some [[1]])
   \<and> fst (get_Ftest ref_ext (PStr ''iid'') (snd (get_vcov ref_ext (PStr ''iid'') ex_iv))) = None
   \<and> self_F_stat (snd (get_Ftest ref_ext (PStr ''iid'') (snd (get_vcov ref_ext (PStr ''iid'') ex_iv))))
       = Some 36
   \<and> F_statistic ref_ext [[1]] [4 / 3] [[4 / 81]] = Inr 36
   \<and> F_statistic ref_ext [[1]] [4 / 3] [[1]] = Inr (16 / 9)"
  by (simp add: model_defs)


subsection \<open>The weights\<close>

lemma vcov_iid_weights:
  "vcov_iid np (self\<lparr> self_weights := w \<rparr>) f bread
     = (fst (vcov_iid np self f bread), (snd (vcov_iid np self f bread))\<lparr> self_weights := w \<rparr>)"
  by (simp add: vcov_iid_def Let_def)

lemma hetero_scores_weights:
  "hetero_scores np (self\<lparr> self_weights := w \<rparr>) f detail = hetero_scores np self f detail"
  by (simp add: hetero_scores_def cong: sum.case_cong)

lemma vcov_hetero_weights:
  "vcov_hetero np (self\<lparr> self_weights := w \<rparr>) f bread detail
     = (fst (vcov_hetero np self f bread detail),
        (snd (vcov_hetero np self f bread detail))\<lparr> self_weights := w \<rparr>)"
  by (simp add: vcov_hetero_def hetero_scores_weights Let_def split: sum.splits prod.splits option.splits)

lemma vcov_crv_weights:
  assumes "detail \<noteq> PStr ''CRV1''"
  shows "vcov_crv np (self\<lparr> self_weights := w \<rparr>) f bread detail
     = (fst (vcov_crv np self f bread detail),
        (snd (vcov_crv np self f bread detail))\<lparr> self_weights := w \<rparr>)"
  using assms
  by (simp add: vcov_crv_def Let_def cong: sum.case_cong option.case_cong if_cong
      split: sum.splits prod.splits option.splits)

lemma compute_bread_weights:
  "compute_bread np (self\<lparr> self_weights := w \<rparr>) f = compute_bread np self f"
  by (simp add: compute_bread_def)

lemma deparse_detail:
  assumes "deparse_vcov_input vcov has_fixef is_iv = Inr (ty, de, cl, cv)"
  shows "vcov_detail vcov = Inr de"
  using assms by (auto simp: deparse_vcov_input_def split: sum.splits if_splits)

lemma vcov_iid_euw:
  assumes "eq_upto_weights s t"
  shows "fst (vcov_iid np t f b) = fst (vcov_iid np s f b)
       \<and> eq_upto_weights (snd (vcov_iid np s f b)) (snd (vcov_iid np t f b))"
  using assms by (auto simp: eq_upto_weights_def vcov_iid_weights)

lemma vcov_hetero_euw:
  assumes "eq_upto_weights s t"
  shows "fst (vcov_hetero np t f b de) = fst (vcov_hetero np s f b de)
       \<and> eq_upto_weights (snd (vcov_hetero np s f b de)) (snd (vcov_hetero np t f b de))"
  using assms by (auto simp: eq_upto_weights_def vcov_hetero_weights)

lemma vcov_crv_euw:
  assumes "eq_upto_weights s t" and "de \<noteq> PStr ''CRV1''"
  shows "fst (vcov_crv np t f b de) = fst (vcov_crv np s f b de)
       \<and> eq_upto_weights (snd (vcov_crv np s f b de)) (snd (vcov_crv np t f b de))"
  using assms by (auto simp: eq_upto_weights_def vcov_crv_weights)

lemma get_vcov_euw:
  assumes nd: "vcov_detail vcov \<noteq> Inr (PStr ''CRV1'')" and st: "eq_upto_weights s t"
  shows "fst (get_vcov np vcov t) = fst (get_vcov np vcov s)
       \<and> eq_upto_weights (snd (get_vcov np vcov s)) (snd (get_vcov np vcov t))"
proof -
  from st obtain w where t: "t = s\<lparr> self_weights := w \<rparr>"
    by (auto simp: eq_upto_weights_def)
  have r: "reset_vcov t = (reset_vcov s)\<lparr> self_weights := w \<rparr>"
    by (simp add: t reset_vcov_def)
  have ft: "self_fit t = self_fit s" "self_data t = self_data s"
    "self_has_fixef t = self_has_fixef s" "self_is_iv t = self_is_iv s"
    by (simp_all add: t)
  have cb: "compute_bread np t = compute_bread np s"
    by (simp add: t compute_bread_weights fun_eq_iff)
  show ?thesis
  proof (cases "self_fit s")
    case None
    then show ?thesis using st by (simp add: get_vcov_def t)
  next
    case (Some f)
    show ?thesis
    proof (cases "check_vcov_input vcov (self_data s)")
      case (Inl e)
      then show ?thesis using Some r by (auto simp: get_vcov_def t eq_upto_weights_def)
    next
      case chk: (Inr u)
      show ?thesis
      proof (cases "deparse_vcov_input vcov (self_has_fixef s) (self_is_iv s)")
        case (Inl e)
        then show ?thesis using Some chk r by (auto simp: get_vcov_def t eq_upto_weights_def)
      next
        case (Inr q)
        obtain ty de cl cv where q: "q = (ty, de, cl, cv)" by (cases q) auto
        from deparse_detail Inr q nd have de: "de \<noteq> PStr ''CRV1''" by fastforce
        let ?s1 = "(reset_vcov s)\<lparr> self_vcov_type := Some ty, self_vcov_type_detail := Some de,
                      self_is_clustered := Some cl, self_clustervar := cv \<rparr>"
        let ?t1 = "(reset_vcov t)\<lparr> self_vcov_type := Some ty, self_vcov_type_detail := Some de,
                      self_is_clustered := Some cl, self_clustervar := cv \<rparr>"
        have e1: "eq_upto_weights ?s1 ?t1"
          unfolding eq_upto_weights_def r by (rule exI [of _ w]) simp
        have gs: "get_vcov np vcov s =
            (if self_is_iv s \<and> ty \<in> set [''CRV3''] then (Some VcovTypeNotSupportedError, ?s1)
             else case compute_bread np s f of Inl e \<Rightarrow> (Some e, ?s1)
               | Inr bread \<Rightarrow> if ty = ''iid'' then vcov_iid np ?s1 f bread
                   else if ty = ''hetero'' then vcov_hetero np ?s1 f bread de
                   else if ty = ''CRV'' then vcov_crv np ?s1 f bread de else (None, ?s1))"
          using Some chk Inr q by (simp add: get_vcov_def Let_def)
        have gt: "get_vcov np vcov t =
            (if self_is_iv s \<and> ty \<in> set [''CRV3''] then (Some VcovTypeNotSupportedError, ?t1)
             else case compute_bread np s f of Inl e \<Rightarrow> (Some e, ?t1)
               | Inr bread \<Rightarrow> if ty = ''iid'' then vcov_iid np ?t1 f bread
                   else if ty = ''hetero'' then vcov_hetero np ?t1 f bread de
                   else if ty = ''CRV'' then vcov_crv np ?t1 f bread de else (None, ?t1))"
          using Some chk Inr q ft cb by (simp add: get_vcov_def Let_def)
        show ?thesis
        proof (cases "self_is_iv s \<and> ty \<in> set [''CRV3'']")
          case True
          then show ?thesis unfolding gs gt using e1 by auto
        next
          case guard: False
          show ?thesis
          proof (cases "compute_bread np s f")
            case (Inl e)
            then show ?thesis unfolding gs gt using guard e1 by auto
          next
            case bread: (Inr bread)
            consider "ty = ''iid''" | "ty \<noteq> ''iid''" "ty = ''hetero''"
              | "ty \<noteq> ''iid''" "ty \<noteq> ''hetero''" "ty = ''CRV''"
              | "ty \<noteq> ''iid''" "ty \<noteq> ''hetero''" "ty \<noteq> ''CRV''"
              by blast
            then show ?thesis
            proof cases
              case 1
              then show ?thesis unfolding gs gt using guard bread vcov_iid_euw [OF e1, of np f bread]
                by auto
            next
              case 2
              then show ?thesis unfolding gs gt
                using guard bread vcov_hetero_euw [OF e1, of np f bread de] by auto
            next
              case 3
              then show ?thesis unfolding gs gt
                using guard bread vcov_crv_euw [OF e1 de, of np f bread] by auto
            next
              case 4
              then show ?thesis unfolding gs gt using guard bread e1 by auto
            qed
          qed
        qed
      qed
    qed
  qed
qed

lemma vcov_iid_keeps_weights: "self_weights (snd (vcov_iid np s f b)) = self_weights s"
  by (simp add: vcov_iid_def Let_def)

lemma vcov_hetero_keeps_weights: "self_weights (snd (vcov_hetero np s f b de)) = self_weights s"
  by (simp add: vcov_hetero_def Let_def split: sum.splits prod.splits option.splits)

lemma vcov_crv_keeps_weights: "self_weights (snd (vcov_crv np s f b de)) = self_weights s"
  by (simp add: vcov_crv_def Let_def split: sum.splits prod.splits option.splits)

lemma get_vcov_keeps_weights: "self_weights (snd (get_vcov np vcov s)) = self_weights s"
  by (simp add: get_vcov_def Let_def reset_vcov_def vcov_iid_keeps_weights
      vcov_hetero_keeps_weights vcov_crv_keeps_weights
      split: sum.splits prod.splits option.splits)

lemma get_fit_weights:
  "get_fit np (self\<lparr> self_weights := w \<rparr>) = map_sum id (\<lambda>s. s\<lparr> self_weights := w \<rparr>) (get_fit np self)"
  by (simp add: get_fit_def Let_def split: sum.splits option.splits)

text \<open>
  C7, as the code has it. \<open>_feols_input_checks\<close> accepts every two-dimensional array
  as weights, whatever its number of rows, and rejects every other number of dimensions.
  \<open>get_fit\<close> does not read the weights, and neither does \<open>get_vcov\<close> unless the
  request is CRV1: two models that differ in their weights only get the same outcome and the
  same fields, coefficients, residuals and covariance among them. (The CRV1 branch
  multiplies each residual by its weight.)
\<close>

theorem weights_unused_outside_crv1:
  assumes "vcov_detail vcov \<noteq> Inr (PStr ''CRV1'')"
  shows "get_fit np (self\<lparr> self_weights := w \<rparr>)
           = map_sum id (\<lambda>s. s\<lparr> self_weights := w \<rparr>) (get_fit np self)
       \<and> get_vcov np vcov (self\<lparr> self_weights := w \<rparr>)
           = (fst (get_vcov np vcov self), (snd (get_vcov np vcov self))\<lparr> self_weights := w \<rparr>)
       \<and> feols_input_checks (Array2 Y) (Array2 X) (Array2 W) = Inr ()
       \<and> (ndim W' \<noteq> 2 \<longrightarrow> feols_input_checks Y' X' W' \<noteq> Inr ())"
proof -
  have e: "eq_upto_weights self (self\<lparr> self_weights := w \<rparr>)"
    by (auto simp: eq_upto_weights_def)
  from get_vcov_euw [OF assms e, of np]
  obtain w' where f: "fst (get_vcov np vcov (self\<lparr> self_weights := w \<rparr>)) = fst (get_vcov np vcov self)"
    and s: "snd (get_vcov np vcov (self\<lparr> self_weights := w \<rparr>)) = (snd (get_vcov np vcov self))\<lparr> self_weights := w' \<rparr>"
    by (auto simp: eq_upto_weights_def)
  have "self_weights (snd (get_vcov np vcov (self\<lparr> self_weights := w \<rparr>))) = w"
    by (simp add: get_vcov_keeps_weights)
  with s have "w' = w" by simp
  with f s have "get_vcov np vcov (self\<lparr> self_weights := w \<rparr>)
           = (fst (get_vcov np vcov self), (snd (get_vcov np vcov self))\<lparr> self_weights := w \<rparr>)"
    by (simp add: prod_eq_iff)
  then show ?thesis
    by (auto simp: get_fit_weights feols_input_checks_def)
qed

theorem weights_unused_outside_crv1_witness:
  "get_fit ref_ext (ex_model\<lparr> self_weights := Some [[2], [2]] \<rparr>)
     = map_sum id (\<lambda>s. s\<lparr> self_weights := Some [[2], [2]] \<rparr>) (get_fit ref_ext ex_model)
   \<and> get_vcov ref_ext (PDict [(PStr ''CRV3'', PStr ''c'')]) (ex_model\<lparr> self_weights := Some [[2], [2]] \<rparr>)
       = (fst (get_vcov ref_ext (PDict [(PStr ''CRV3'', PStr ''c'')]) ex_model),
          (snd (get_vcov ref_ext (PDict [(PStr ''CRV3'', PStr ''c'')]) ex_model))
            \<lparr> self_weights := Some [[2], [2]] \<rparr>)
   \<and> feols_input_checks (Array2 ex_Y) (Array2 ex_X) (Array2 [[1]]) = Inr ()
   \<and> feols_input_checks (Array2 ex_Y) (Array2 ex_X) (Array1 [1, 1]) \<noteq> Inr ()"
proof -
  have d: "vcov_detail (PDict [(PStr ''CRV3'', PStr ''c'')]) \<noteq> Inr (PStr ''CRV1'')"
    by (simp add: vcov_detail_def)
  show ?thesis
    using weights_unused_outside_crv1 [OF d, where np = ref_ext and self = ex_model
        and w = "Some [[2], [2]]" and Y = ex_Y and X = ex_X and W = "[[1]]"
        and W' = "Array1 [1, 1]" and Y' = "Array2 ex_Y" and X' = "Array2 ex_X"]
    by simp
qed

text \<open>
  C7, as stated, fails for CRV1: with the weights \<open>[2, 2]\<close> in place of \<open>[1, 1]\<close>
  the model \<open>ex_model\<close> is fitted alike, and its CRV1 covariance is \<open>2\<close> instead of
  \<open>1/2\<close>. The checks also accept weights with one row for a model of two observations.
\<close>

theorem weights_change_crv1_counterexample:
  "fit_model ref_ext ex_Y ex_X [[2], [2]] ex_data = Inr (ex_model\<lparr> self_weights := Some [[2], [2]] \<rparr>)
   \<and> self_vcov (snd (get_vcov ref_ext (PDict [(PStr ''CRV1'', PStr ''c'')]) ex_model)) = Some [[1 / 2]]
   \<and> self_vcov (snd (get_vcov ref_ext (PDict [(PStr ''CRV1'', PStr ''c'')])
                       (ex_model\<lparr> self_weights := Some [[2], [2]] \<rparr>))) = Some [[2]]
   \<and> feols_input_checks (Array2 ex_Y) (Array2 ex_X) (Array2 [[1]]) = Inr ()"
  by (simp add: model_defs)



subsection \<open>HC2 and HC3\<close>

lemma dot_commute: "dot u v = dot v u"
proof -
  have "map2 (*) u v = map2 (*) v u"
  proof (induction u arbitrary: v)
    case Nil
    then show ?case by simp
  next
    case (Cons a u)
    then show ?case by (cases v) (auto simp: mult.commute)
  qed
  then show ?thesis by (simp add: dot_def)
qed

lemma leverage_nth:
  assumes "i < length X"
  shows "leverage X A ! i = dot (vec_mat (X ! i) A) (X ! i)"
proof -
  have row: "matmul X A ! i = vec_mat (X ! i) A"
    using assms by (simp add: matmul_def matmul_n_def vec_mat_def)
  have "leverage X A ! i = dot (X ! i) (matmul X A ! i)"
    using assms by (simp add: leverage_def dot_def matmul_def matmul_n_def)
  then show ?thesis
    by (simp add: row dot_commute)
qed

text \<open>
  C5, as the code has it. On a model without instruments and without fixed effects that
  \<open>get_fit\<close> has fitted with \<open>Z = X\<close>, a request for HC2 or HC3 raises nothing:
  it stores \<open>ssc * bread @ meat @ bread\<close> with \<open>meat\<close> the cross product of the
  transformed scores, row \<open>i\<close> of the scores over \<open>sqrt(1 - h_i)\<close> for HC2 (which also
  binds the residuals over \<open>sqrt(1 - h_i)\<close> to the local \<open>u\<close>) and over
  \<open>1 - h_i\<close> for HC3, where \<open>h_i = X_i (X'X)^-1 X_i'\<close> and \<open>(X'X)^-1\<close> is what
  numpy's \<open>inv\<close> returned. No hypothesis bounds the leverage: the code has no test of it.
\<close>

theorem hc2_hc3_rescale_without_leverage_check:
  assumes fit: "get_fit np self0 = Inr self"
    and ols: "self_Z self0 = self_X self0" "\<not> self_is_iv self0" "\<not> self_has_fixef self0"
    and d: "d \<in> {''HC2'', ''HC3''}"
  shows "\<exists>f Ainv.
      self_fit self = Some f
    \<and> np_inv np (matmul (transpose_m (self_X self)) (self_X self)) = Some Ainv
    \<and> tZXinv f = Ainv
    \<and> (\<forall>i < length (self_X self).
          leverage (self_X self) Ainv ! i = dot (vec_mat (self_X self ! i) Ainv) (self_X self ! i))
    \<and> hetero_scores np self f (PStr d)
        = Inr (if d = ''HC2''
               then Some (map2 (\<lambda>u h. u / sqrt (1 - h)) (u_hat f) (leverage (self_X self) Ainv))
               else None,
               rows_over (scores f)
                 (map (\<lambda>h. if d = ''HC2'' then sqrt (1 - h) else 1 - h) (leverage (self_X self) Ainv)))
    \<and> get_vcov np (PStr d) self
        = (None,
           (reset_vcov self)
             \<lparr> self_vcov_type := Some ''hetero'', self_vcov_type_detail := Some (PStr d),
               self_is_clustered := Some False, self_clustervar := None,
               self_ssc := Some (get_ssc np (self_ssc_dict self) (self_N self) (self_k self) 1 1 ''hetero''),
               self_vcov := Some (sandwich
                  (get_ssc np (self_ssc_dict self) (self_N self) (self_k self) 1 1 ''hetero'') Ainv
                  (matmul
                     (transpose_m (rows_over (scores f)
                        (map (\<lambda>h. if d = ''HC2'' then sqrt (1 - h) else 1 - h)
                           (leverage (self_X self) Ainv))))
                     (rows_over (scores f)
                        (map (\<lambda>h. if d = ''HC2'' then sqrt (1 - h) else 1 - h)
                           (leverage (self_X self) Ainv))))) \<rparr>)"
proof -
  let ?X = "self_X self0"
  let ?A = "matmul (transpose_m ?X) ?X"
  from fit ols obtain Ainv B where inv: "np_inv np ?A = Some Ainv"
    and sol: "np_solve np ?A (matmul (transpose_m ?X) (self_Y self0)) = Some B"
    by (auto simp: get_fit_def Let_def inv_or_raise_def split: sum.splits option.splits)
  define f where "f = \<lparr> tZX = ?A, tZy = matmul (transpose_m ?X) (self_Y self0), tZXinv = Ainv,
      beta_hat = flatten B, Y_hat_link = mat_vec ?X (flatten B),
      u_hat = vsub (flatten (self_Y self0)) (mat_vec ?X (flatten B)),
      scores = rows_times ?X (vsub (flatten (self_Y self0)) (mat_vec ?X (flatten B))),
      hessian = ?A, tXZ = None, tZZinv = None \<rparr>"
  have self: "self = self0\<lparr> self_fit := Some f \<rparr>"
    using fit ols inv sol by (simp add: get_fit_def Let_def inv_or_raise_def f_def)
  have hs_any: "hetero_scores np s f (PStr d)
        = Inr (if d = ''HC2''
               then Some (map2 (\<lambda>u h. u / sqrt (1 - h)) (u_hat f) (leverage (self_X self) Ainv))
               else None,
               rows_over (scores f)
                 (map (\<lambda>h. if d = ''HC2'' then sqrt (1 - h) else 1 - h) (leverage (self_X self) Ainv)))"
    if "self_X s = self_X self" and "self_is_iv s = False" for s :: "'a feols"
    using d ols inv that by (auto simp: hetero_scores_def self inv_or_raise_def f_def Let_def)
  have flags: "self_is_iv self = False" "self_has_fixef self = False"
    using ols by (simp_all add: self)
  have hs: "hetero_scores np self f (PStr d)
        = Inr (if d = ''HC2''
               then Some (map2 (\<lambda>u h. u / sqrt (1 - h)) (u_hat f) (leverage (self_X self) Ainv))
               else None,
               rows_over (scores f)
                 (map (\<lambda>h. if d = ''HC2'' then sqrt (1 - h) else 1 - h) (leverage (self_X self) Ainv)))"
    by (rule hs_any) (simp_all add: flags)
  have gv: "get_vcov np (PStr d) self
        = (None,
           (reset_vcov self)
             \<lparr> self_vcov_type := Some ''hetero'', self_vcov_type_detail := Some (PStr d),
               self_is_clustered := Some False, self_clustervar := None,
               self_ssc := Some (get_ssc np (self_ssc_dict self) (self_N self) (self_k self) 1 1 ''hetero''),
               self_vcov := Some (sandwich
                  (get_ssc np (self_ssc_dict self) (self_N self) (self_k self) 1 1 ''hetero'') Ainv
                  (matmul
                     (transpose_m (rows_over (scores f)
                        (map (\<lambda>h. if d = ''HC2'' then sqrt (1 - h) else 1 - h)
                           (leverage (self_X self) Ainv))))
                     (rows_over (scores f)
                        (map (\<lambda>h. if d = ''HC2'' then sqrt (1 - h) else 1 - h)
                           (leverage (self_X self) Ainv))))) \<rparr>)"
  proof -
    have chk: "check_vcov_input (PStr d) (self_data self) = Inr ()"
      using d by (auto simp: check_vcov_input_def)
    have dep: "deparse_vcov_input (PStr d) False False = Inr (''hetero'', PStr d, False, None)"
      using d by (auto simp: deparse_vcov_input_def vcov_detail_def)
    have br: "compute_bread np self f = Inr Ainv"
      using ols inv by (simp add: compute_bread_def self inv_or_raise_def f_def)
    have sf: "self_fit self = Some f" by (simp add: self)
    show ?thesis
      by (simp add: get_vcov_def sf chk flags dep br vcov_hetero_def Let_def hs_any reset_vcov_def)
  qed
  show ?thesis
    apply (rule exI [of _ f], rule exI [of _ Ainv])
    using inv hs gv leverage_nth by (simp add: self f_def)
qed


theorem hc2_hc3_rescale_without_leverage_check_witness:
  "get_fit ref_ext (ex_model\<lparr> self_fit := None \<rparr>) = Inr ex_model
   \<and> leverage (self_X ex_model) [[1 / 2]] = [1 / 2, 1 / 2]
   \<and> get_vcov ref_ext (PStr ''HC3'') ex_model =
       (None, ex_model\<lparr> self_vcov_type := Some ''hetero'', self_vcov_type_detail := Some (PStr ''HC3''),
               self_is_clustered := Some False, self_ssc := Some 1, self_vcov := Some [[2]] \<rparr>)"
proof -
  have fit: "get_fit ref_ext (ex_model\<lparr> self_fit := None \<rparr>) = Inr ex_model"
    by (simp add: model_defs)
  have ols: "self_Z (ex_model\<lparr> self_fit := None \<rparr>) = self_X (ex_model\<lparr> self_fit := None \<rparr>)"
    "\<not> self_is_iv (ex_model\<lparr> self_fit := None \<rparr>)" "\<not> self_has_fixef (ex_model\<lparr> self_fit := None \<rparr>)"
    by (simp_all add: ex_model_def)
  have d: "''HC3'' \<in> {''HC2'', ''HC3''}" by simp
  from hc2_hc3_rescale_without_leverage_check [OF fit ols d]
  obtain f Ainv where f: "self_fit ex_model = Some f"
    and A: "np_inv ref_ext (matmul (transpose_m (self_X ex_model)) (self_X ex_model)) = Some Ainv"
    and g: "get_vcov ref_ext (PStr ''HC3'') ex_model
        = (None,
           (reset_vcov ex_model)
             \<lparr> self_vcov_type := Some ''hetero'', self_vcov_type_detail := Some (PStr ''HC3''),
               self_is_clustered := Some False, self_clustervar := None,
               self_ssc := Some (get_ssc ref_ext (self_ssc_dict ex_model) (self_N ex_model) (self_k ex_model) 1 1 ''hetero''),
               self_vcov := Some (sandwich
                  (get_ssc ref_ext (self_ssc_dict ex_model) (self_N ex_model) (self_k ex_model) 1 1 ''hetero'') Ainv
                  (matmul
                     (transpose_m (rows_over (scores f)
                        (map (\<lambda>h. if ''HC3'' = ''HC2'' then sqrt (1 - h) else 1 - h)
                           (leverage (self_X ex_model) Ainv))))
                     (rows_over (scores f)
                        (map (\<lambda>h. if ''HC3'' = ''HC2'' then sqrt (1 - h) else 1 - h)
                           (leverage (self_X ex_model) Ainv))))) \<rparr>)"
    by blast
  from f have f': "f = \<lparr> tZX = [[2]], tZy = [[2]], tZXinv = [[1 / 2]], beta_hat = [1],
                         Y_hat_link = [1, 1], u_hat = [- 1, 1], scores = [[- 1], [1]],
                         hessian = [[2]], tXZ = None, tZZinv = None \<rparr>"
    by (simp add: ex_model_def)
  from A have A': "Ainv = [[1 / 2]]"
    by (simp add: model_defs)
  show ?thesis
    using fit g unfolding f' A' by (simp add: model_defs)
qed


text \<open>
  C5, as stated, fails where it says that a leverage of \<open>1\<close> or more is rejected: on
  \<open>lev_model\<close> the leverages are \<open>1, 1/2, 1/2\<close>, and HC2 and HC3 both return
  without an exception and store a matrix. (In numpy the entries of that matrix that divide
  by \<open>1 - 1\<close> are \<open>nan\<close>; the model does not say what they are.)
\<close>

theorem leverage_one_not_rejected_counterexample:
  "fit_model ref_ext lev_Y lev_X [[1], [1], [1]] [] = Inr lev_model
   \<and> leverage lev_X [[1, 0], [0, 1 / 2]] = [1, 1 / 2, 1 / 2]
   \<and> fst (get_vcov ref_ext (PStr ''HC2'') lev_model) = None
   \<and> self_vcov (snd (get_vcov ref_ext (PStr ''HC2'') lev_model)) \<noteq> None
   \<and> fst (get_vcov ref_ext (PStr ''HC3'') lev_model) = None
   \<and> self_vcov (snd (get_vcov ref_ext (PStr ''HC3'') lev_model)) \<noteq> None"
  by (simp add: model_defs lev_Y_def lev_X_def lev_model_def)



subsection \<open>Arrays by index\<close>

lemma is_mat_ncols: "is_mat n p A \<Longrightarrow> 0 < n \<Longrightarrow> ncols A = p"
  by (cases A) (auto simp: is_mat_def ncols_def)

lemma is_mat_row: "is_mat n p A \<Longrightarrow> i < n \<Longrightarrow> length (A ! i) = p"
  by (auto simp: is_mat_def)

lemma dot_sum:
  assumes "length u = length v"
  shows "dot u v = (\<Sum>l<length u. u ! l * v ! l)"
proof -
  have "dot u v = (\<Sum>l = 0..<length (map2 (*) u v). map2 (*) u v ! l)"
    unfolding dot_def by (rule sum_list_sum_nth)
  also have "\<dots> = (\<Sum>l<length u. u ! l * v ! l)"
    using assms by (simp add: atLeast0LessThan)
  finally show ?thesis .
qed

lemma col_length: "length (col A j) = length A"
  by (simp add: col_def)

lemma col_nth: "i < length A \<Longrightarrow> col A j ! i = A ! i ! j"
  by (simp add: col_def)

lemma matmul_nth:
  assumes A: "is_mat n m A" and B: "is_mat m p B" and m: "0 < m" and i: "i < n" and j: "j < p"
  shows "matmul A B ! i ! j = (\<Sum>l<m. A ! i ! l * B ! l ! j)"
proof -
  have nc: "ncols B = p" using B m by (rule is_mat_ncols)
  have lA: "length A = n" and lB: "length B = m" using A B by (auto simp: is_mat_def)
  have row: "length (A ! i) = m" using A i by (rule is_mat_row)
  have "matmul A B ! i ! j = dot (A ! i) (col B j)"
    using i j nc lA by (simp add: matmul_def matmul_n_def)
  also have "\<dots> = (\<Sum>l<m. A ! i ! l * col B j ! l)"
    using dot_sum [of "A ! i" "col B j"] row lB by (simp add: col_length)
  also have "\<dots> = (\<Sum>l<m. A ! i ! l * B ! l ! j)"
    using lB by (intro sum.cong) (auto simp: col_nth)
  finally show ?thesis .
qed

lemma matmul_is_mat:
  assumes "is_mat n m A" and "is_mat m p B" and "0 < m"
  shows "is_mat n p (matmul A B)"
  using assms is_mat_ncols [OF assms(2,3)]
  by (auto simp: is_mat_def matmul_def matmul_n_def)

lemma transpose_is_mat:
  assumes "is_mat n p A" and "0 < n"
  shows "is_mat p n (transpose_m A)"
  using assms is_mat_ncols [OF assms]
  by (auto simp: is_mat_def transpose_m_def transpose_n_def col_def)

lemma transpose_nth:
  assumes "is_mat n p A" and "0 < n" and "j < p" and "i < n"
  shows "transpose_m A ! j ! i = A ! i ! j"
  using assms is_mat_ncols [OF assms(1,2)]
  by (auto simp: is_mat_def transpose_m_def transpose_n_def col_def)

lemma mat_vec_length: "length (mat_vec A v) = length A"
  by (simp add: mat_vec_def)

lemma mat_vec_nth:
  assumes "is_mat n p A" and "length v = p" and "i < n"
  shows "mat_vec A v ! i = (\<Sum>l<p. A ! i ! l * v ! l)"
proof -
  have "length A = n" using assms by (simp add: is_mat_def)
  moreover have "length (A ! i) = p" using assms by (simp add: is_mat_row)
  ultimately show ?thesis
    using assms dot_sum [of "A ! i" v] by (simp add: mat_vec_def)
qed

lemma flatten_column:
  assumes "is_mat n 1 B"
  shows "flatten B = map (\<lambda>r. r ! 0) B"
  using assms
proof (induction B arbitrary: n)
  case Nil
  then show ?case by (simp add: flatten_def)
next
  case (Cons r B)
  then have r: "length r = 1" and B: "is_mat (length B) 1 B"
    by (auto simp: is_mat_def)
  from r have "r = [r ! 0]"
    by (cases r) auto
  with Cons.IH [OF B] show ?case
    by (simp add: flatten_def)
qed

lemma flatten_column_length:
  assumes "is_mat n 1 B"
  shows "length (flatten B) = n"
  using assms by (simp add: flatten_column is_mat_def)

lemma flatten_column_nth:
  assumes "is_mat n 1 B" and "i < n"
  shows "flatten B ! i = B ! i ! 0"
  using assms by (simp add: flatten_column is_mat_def)


lemma sum_vec_mat_assoc:
  fixes X :: mat
  shows "(\<Sum>i<n. X ! i ! a * (\<Sum>b<k. X ! i ! b * v ! b))
       = (\<Sum>b<k. (\<Sum>i<n. X ! i ! a * X ! i ! b) * v ! b)"
proof -
  have "(\<Sum>i<n. X ! i ! a * (\<Sum>b<k. X ! i ! b * v ! b))
      = (\<Sum>i<n. \<Sum>b<k. X ! i ! a * X ! i ! b * v ! b)"
    by (simp add: sum_distrib_left mult.assoc)
  also have "\<dots> = (\<Sum>b<k. \<Sum>i<n. X ! i ! a * X ! i ! b * v ! b)"
    by (rule sum.swap)
  also have "\<dots> = (\<Sum>b<k. (\<Sum>i<n. X ! i ! a * X ! i ! b) * v ! b)"
    by (simp add: sum_distrib_right)
  finally show ?thesis .
qed

lemma rows_times_nth:
  assumes "length v = length A" and "i < length A"
  shows "rows_times A v ! i = map (\<lambda>a. a * v ! i) (A ! i)"
  using assms by (simp add: rows_times_def)

lemma mat_eqI:
  assumes M: "is_mat n p M" and M': "is_mat n p M'"
    and eq: "\<And>i j. i < n \<Longrightarrow> j < p \<Longrightarrow> M ! i ! j = M' ! i ! j"
  shows "M = M'"
proof (rule nth_equalityI)
  show "length M = length M'" using M M' by (simp add: is_mat_def)
  fix i assume "i < length M"
  then have i: "i < n" using M by (simp add: is_mat_def)
  show "M ! i = M' ! i"
  proof (rule nth_equalityI)
    show "length (M ! i) = length (M' ! i)"
      using is_mat_row [OF M i] is_mat_row [OF M' i] by simp
    fix j assume "j < length (M ! i)"
    then have "j < p" using is_mat_row [OF M i] by simp
    then show "M ! i ! j = M' ! i ! j" using i by (rule eq [rotated])
  qed
qed

lemma inv_small_inverse:
  assumes "inv_small A = Some Ai" and "is_mat n n A"
  shows "is_mat n n Ai \<and> 0 < n
       \<and> (\<forall>i<n. \<forall>j<n. (\<Sum>l<n. A ! i ! l * Ai ! l ! j) = (if i = j then 1 else 0))"
  using assms
proof (induction A rule: inv_small.induct)
  case (1 a)
  then show ?case by (auto simp: is_mat_def split: if_splits)
next
  case (2 a b c d)
  define D where "D = a * d - b * c"
  from 2 have n: "n = 2" by (simp add: is_mat_def)
  from 2 have det: "D \<noteq> 0" and Ai: "Ai = [[d / D, - b / D], [- c / D, a / D]]"
    by (auto simp: D_def split: if_splits)
  have "a * (d / D) + b * (- c / D) = (a * d - b * c) / D"
    by (simp add: diff_divide_distrib)
  then have e00: "a * (d / D) + b * (- c / D) = 1"
    using det by (simp add: D_def)
  have "c * (- b / D) + d * (a / D) = (a * d - b * c) / D"
    by (simp add: diff_divide_distrib mult.commute)
  then have e11: "c * (- b / D) + d * (a / D) = 1"
    using det by (simp add: D_def)
  have e01: "a * (- b / D) + b * (a / D) = 0"
    by (simp add: mult.commute)
  have e10: "c * (d / D) + d * (- c / D) = 0"
    by (simp add: mult.commute)
  have entries: "(\<Sum>l<2. [[a, b], [c, d]] ! i ! l * Ai ! l ! j) = (if i = j then 1 else 0)"
    if "i < 2" "j < 2" for i j
  proof -
    from that have "i = 0 \<or> i = 1" "j = 0 \<or> j = 1" by auto
    then show ?thesis
      using e00 e01 e10 e11 by (auto simp: Ai lessThan_Suc numeral_2_eq_2)
  qed
  show ?case
    using entries by (auto simp: n Ai is_mat_def)
qed simp_all

lemma solve_small_contract: "solve_contract ref_ext"
  unfolding solve_contract_def
proof (intro allI impI, elim conjE)
  fix A B S :: mat and n p :: nat
  assume A: "is_mat n n A" and B: "is_mat n p B" and "0 < n"
    and sol: "np_solve ref_ext A B = Some S"
  from sol obtain Ai where inv: "inv_small A = Some Ai" and S: "S = matmul Ai B"
    by (auto simp: ref_ext_def solve_small_def split: option.splits)
  from inv_small_inverse [OF inv A]
  have Ai: "is_mat n n Ai" and n: "0 < n"
    and unit: "\<And>i j. i < n \<Longrightarrow> j < n \<Longrightarrow> (\<Sum>l<n. A ! i ! l * Ai ! l ! j) = (if i = j then 1 else 0)"
    by auto
  have Smat: "is_mat n p S" unfolding S using Ai B n by (rule matmul_is_mat)
  have ASmat: "is_mat n p (matmul A S)" using A Smat n by (rule matmul_is_mat)
  have "matmul A S = B"
  proof (rule mat_eqI [OF ASmat B])
    fix i j assume i: "i < n" and j: "j < p"
    have "matmul A S ! i ! j = (\<Sum>l<n. A ! i ! l * S ! l ! j)"
      using matmul_nth [OF A Smat n i j] .
    also have "\<dots> = (\<Sum>l<n. A ! i ! l * (\<Sum>m<n. Ai ! l ! m * B ! m ! j))"
      using matmul_nth [OF Ai B n _ j] by (intro sum.cong) (auto simp: S)
    also have "\<dots> = (\<Sum>l<n. \<Sum>m<n. A ! i ! l * Ai ! l ! m * B ! m ! j)"
      by (simp add: sum_distrib_left mult.assoc)
    also have "\<dots> = (\<Sum>m<n. \<Sum>l<n. A ! i ! l * Ai ! l ! m * B ! m ! j)"
      by (rule sum.swap)
    also have "\<dots> = (\<Sum>m<n. (\<Sum>l<n. A ! i ! l * Ai ! l ! m) * B ! m ! j)"
      by (simp add: sum_distrib_right)
    also have "\<dots> = (\<Sum>m<n. (if i = m then 1 else 0) * B ! m ! j)"
      using unit [OF i] by (intro sum.cong) auto
    also have "\<dots> = B ! i ! j"
      using i by (simp add: if_distrib [of "\<lambda>x. x * _"] sum.delta cong: if_cong)
    finally show "matmul A S ! i ! j = B ! i ! j" .
  qed
  with Smat show "is_mat n p S \<and> matmul A S = B" by simp
qed


subsection \<open>The point estimator\<close>

text \<open>
  C1. Let \<open>Y\<close> be \<open>N\<close> by 1 and \<open>X\<close> be \<open>N\<close> by \<open>k\<close>, let \<open>Z\<close> be
  \<open>X\<close>, and let numpy invert \<open>X'X\<close> and solve the system (which it does when \<open>X\<close>
  has full rank). Then \<open>get_fit\<close> returns, with \<open>tZX = Z'X\<close> and \<open>tZy = Z'Y\<close>; its
  \<open>beta_hat\<close> solves \<open>(Z'X) beta = Z'Y\<close>, hence the normal equations
  \<open>X'X beta = X'Y\<close>; the residuals are \<open>Y - X beta\<close> and \<open>X'(Y - X beta) = 0\<close>;
  row \<open>i\<close> of the scores is \<open>Z_i\<close> times residual \<open>i\<close>; the information matrix is
  \<open>Z'Z\<close>.
\<close>

theorem get_fit_normal_equations:
  assumes contract: "solve_contract np"
    and X: "is_mat N k (self_X self)" and Y: "is_mat N 1 (self_Y self)"
    and pos: "0 < N" "0 < k"
    and Z: "self_Z self = self_X self"
    and rank: "np_inv np (matmul (transpose_m (self_X self)) (self_X self)) \<noteq> None"
       "np_solve np (matmul (transpose_m (self_X self)) (self_X self))
          (matmul (transpose_m (self_X self)) (self_Y self)) \<noteq> None"
  shows "\<exists>self' f.
      get_fit np self = Inr self' \<and> self' = self\<lparr> self_fit := Some f \<rparr>
    \<and> tZX f = matmul (transpose_m (self_Z self)) (self_X self)
    \<and> tZy f = matmul (transpose_m (self_Z self)) (self_Y self)
    \<and> length (beta_hat f) = k
    \<and> mat_vec (tZX f) (beta_hat f) = flatten (tZy f)
    \<and> mat_vec (matmul (transpose_m (self_X self)) (self_X self)) (beta_hat f)
        = flatten (matmul (transpose_m (self_X self)) (self_Y self))
    \<and> u_hat f = vsub (flatten (self_Y self)) (mat_vec (self_X self) (beta_hat f))
    \<and> mat_vec (transpose_m (self_X self)) (u_hat f) = replicate k 0
    \<and> length (scores f) = N
    \<and> (\<forall>i<N. scores f ! i = map (\<lambda>z. z * u_hat f ! i) (self_Z self ! i))
    \<and> hessian f = matmul (transpose_m (self_Z self)) (self_Z self)"
proof -
  let ?X = "self_X self" and ?Y = "self_Y self"
  let ?A = "matmul (transpose_m ?X) ?X" and ?b = "matmul (transpose_m ?X) ?Y"
  from rank obtain Ainv B where inv: "np_inv np ?A = Some Ainv" and sol: "np_solve np ?A ?b = Some B"
    by auto
  have tX: "is_mat k N (transpose_m ?X)" using X pos by (simp add: transpose_is_mat)
  have A: "is_mat k k ?A" using tX X pos(1) by (rule matmul_is_mat)
  have b: "is_mat k 1 ?b" using tX Y pos(1) by (rule matmul_is_mat)
  from contract A b pos sol have B: "is_mat k 1 B" and AB: "matmul ?A B = ?b"
    unfolding solve_contract_def by blast+
  define beta where "beta = flatten B"
  define u where "u = vsub (flatten ?Y) (mat_vec ?X beta)"
  define f where "f = \<lparr> tZX = ?A, tZy = ?b, tZXinv = Ainv, beta_hat = beta,
      Y_hat_link = mat_vec ?X beta, u_hat = u, scores = rows_times ?X u,
      hessian = ?A, tXZ = None, tZZinv = None \<rparr>"
  have run: "get_fit np self = Inr (self\<lparr> self_fit := Some f \<rparr>)"
    using inv sol Z by (simp add: get_fit_def Let_def inv_or_raise_def f_def beta_def u_def)
  have lbeta: "length beta = k" and beta_nth: "\<And>a. a < k \<Longrightarrow> beta ! a = B ! a ! 0"
    using flatten_column_nth [OF B] flatten_column_length [OF B] by (simp_all add: beta_def)
  have A_nth: "?A ! a ! c = (\<Sum>i<N. ?X ! i ! a * ?X ! i ! c)" if "a < k" "c < k" for a c
    using matmul_nth [OF tX X pos(1) that] that transpose_nth [OF X pos(1)] by simp
  have b_nth: "?b ! a ! 0 = (\<Sum>i<N. ?X ! i ! a * ?Y ! i ! 0)" if "a < k" for a
    using matmul_nth [OF tX Y pos(1) that, of 0] that transpose_nth [OF X pos(1)] by simp
  have normal_nth: "(\<Sum>c<k. ?A ! a ! c * beta ! c) = ?b ! a ! 0" if "a < k" for a
  proof -
    have "matmul ?A B ! a ! 0 = (\<Sum>c<k. ?A ! a ! c * B ! c ! 0)"
      using matmul_nth [OF A B pos(2) that, of 0] by simp
    then show ?thesis using AB beta_nth by simp
  qed
  have normal: "mat_vec ?A beta = flatten ?b"
  proof (rule nth_equalityI)
    show "length (mat_vec ?A beta) = length (flatten ?b)"
      using A flatten_column_length [OF b] pos by (simp add: mat_vec_length is_mat_def)
    fix a assume "a < length (mat_vec ?A beta)"
    then have a: "a < k" using A by (simp add: mat_vec_length is_mat_def)
    show "mat_vec ?A beta ! a = flatten ?b ! a"
      using mat_vec_nth [OF A lbeta a] normal_nth [OF a] flatten_column_nth [OF b a] by simp
  qed
  have lY: "length (flatten ?Y) = N" and Y_nth: "\<And>i. i < N \<Longrightarrow> flatten ?Y ! i = ?Y ! i ! 0"
    using flatten_column_nth [OF Y] flatten_column_length [OF Y] by simp_all
  have lXb: "length (mat_vec ?X beta) = N" using X by (simp add: mat_vec_length is_mat_def)
  have lu: "length u = N" by (simp add: u_def vsub_def lY lXb)
  have u_nth: "u ! i = ?Y ! i ! 0 - (\<Sum>c<k. ?X ! i ! c * beta ! c)" if "i < N" for i
    using that lY lXb Y_nth mat_vec_nth [OF X lbeta that] by (simp add: u_def vsub_def)
  have round: "mat_vec (transpose_m ?X) u = replicate k 0"
  proof (rule nth_equalityI)
    show "length (mat_vec (transpose_m ?X) u) = length (replicate k (0::real))"
      using tX by (simp add: mat_vec_length is_mat_def)
    fix a assume "a < length (mat_vec (transpose_m ?X) u)"
    then have a: "a < k" using tX by (simp add: mat_vec_length is_mat_def)
    have "mat_vec (transpose_m ?X) u ! a = (\<Sum>i<N. transpose_m ?X ! a ! i * u ! i)"
      using mat_vec_nth [OF tX lu a] .
    also have "\<dots> = (\<Sum>i<N. ?X ! i ! a * (?Y ! i ! 0 - (\<Sum>c<k. ?X ! i ! c * beta ! c)))"
      using a transpose_nth [OF X pos(1) a] u_nth by (intro sum.cong) auto
    also have "\<dots> = (\<Sum>i<N. ?X ! i ! a * ?Y ! i ! 0)
                    - (\<Sum>i<N. ?X ! i ! a * (\<Sum>c<k. ?X ! i ! c * beta ! c))"
      by (simp add: right_diff_distrib sum_subtractf)
    also have "\<dots> = ?b ! a ! 0 - (\<Sum>c<k. (\<Sum>i<N. ?X ! i ! a * ?X ! i ! c) * beta ! c)"
      using b_nth [OF a] by (simp add: sum_vec_mat_assoc)
    also have "\<dots> = ?b ! a ! 0 - (\<Sum>c<k. ?A ! a ! c * beta ! c)"
      using A_nth [OF a] by simp
    also have "\<dots> = 0"
      using normal_nth [OF a] by simp
    finally show "mat_vec (transpose_m ?X) u ! a = replicate k 0 ! a"
      using a by simp
  qed
  have sc: "length (rows_times ?X u) = N"
    "\<And>i. i < N \<Longrightarrow> rows_times ?X u ! i = map (\<lambda>z. z * u ! i) (?X ! i)"
    using X lu by (simp_all add: rows_times_def is_mat_def)
  show ?thesis
    apply (rule exI [of _ "self\<lparr> self_fit := Some f \<rparr>"], rule exI [of _ f])
    using run normal round sc lbeta Z by (simp add: f_def u_def)
qed


theorem get_fit_normal_equations_witness:
  "get_fit ref_ext (ex_model\<lparr> self_fit := None \<rparr>) = Inr ex_model
   \<and> mat_vec (matmul (transpose_m ex_X) ex_X) [1] = flatten (matmul (transpose_m ex_X) ex_Y)
   \<and> mat_vec (transpose_m ex_X) [- 1, 1] = [0]"
proof -
  let ?m = "ex_model\<lparr> self_fit := None \<rparr>"
  have X: "is_mat 2 1 (self_X ?m)" and Y: "is_mat 2 1 (self_Y ?m)"
    by (simp_all add: is_mat_def ex_model_def)
  have Z: "self_Z ?m = self_X ?m"
    by (simp add: ex_model_def)
  have rank: "np_inv ref_ext (matmul (transpose_m (self_X ?m)) (self_X ?m)) \<noteq> None"
    "np_solve ref_ext (matmul (transpose_m (self_X ?m)) (self_X ?m))
       (matmul (transpose_m (self_X ?m)) (self_Y ?m)) \<noteq> None"
    by (simp_all add: model_defs)
  have pos: "(0::nat) < 2" "(0::nat) < 1" by simp_all
  from get_fit_normal_equations [OF solve_small_contract X Y pos Z rank]
  obtain self' f where run: "get_fit ref_ext ?m = Inr self'" and self': "self' = ?m\<lparr> self_fit := Some f \<rparr>"
    and normal: "mat_vec (matmul (transpose_m (self_X ?m)) (self_X ?m)) (beta_hat f)
        = flatten (matmul (transpose_m (self_X ?m)) (self_Y ?m))"
    and u: "u_hat f = vsub (flatten (self_Y ?m)) (mat_vec (self_X ?m) (beta_hat f))"
    and round: "mat_vec (transpose_m (self_X ?m)) (u_hat f) = replicate 1 0"
    by blast
  have fit: "get_fit ref_ext ?m = Inr ex_model"
    by (simp add: model_defs)
  with run self' have f: "f = \<lparr> tZX = [[2]], tZy = [[2]], tZXinv = [[1 / 2]], beta_hat = [1],
      Y_hat_link = [1, 1], u_hat = [- 1, 1], scores = [[- 1], [1]],
      hessian = [[2]], tXZ = None, tZZinv = None \<rparr>"
    by (simp add: ex_model_def)
  show ?thesis
    using fit normal round unfolding f by (simp add: ex_model_def ex_X_def ex_Y_def)
qed

subsection \<open>The inference summary\<close>

lemma diagonal_square:
  assumes "is_mat k k V"
  shows "length (diagonal V) = k" and "i < k \<Longrightarrow> diagonal V ! i = V ! i ! i"
proof -
  show len: "length (diagonal V) = k"
  proof (cases "k = 0")
    case True
    then show ?thesis using assms by (simp add: diagonal_def is_mat_def)
  next
    case False
    then show ?thesis using assms is_mat_ncols [OF assms] by (simp add: diagonal_def is_mat_def)
  qed
  show "diagonal V ! i = V ! i ! i" if "i < k"
    using that len by (simp add: diagonal_def)
qed

text \<open>
  C8. On a fitted model whose covariance \<open>V\<close> is \<open>k\<close> by \<open>k\<close>, \<open>get_inference\<close>
  returns, and for every coefficient \<open>i\<close>: the standard error is \<open>sqrt(V[i][i])\<close>, the
  statistic is \<open>beta_i / se_i\<close>, the p-value is \<open>2 * (1 - F(|t_i|))\<close> with \<open>F\<close> the
  Student-t distribution function with \<open>df\<close> degrees of freedom for \<open>feols\<close> and the
  standard normal one otherwise, and the interval is \<open>beta_i - z * se_i\<close>,
  \<open>beta_i + z * se_i\<close> with \<open>z\<close> the absolute quantile at \<open>(1 - alpha) / 2\<close>;
  \<open>df\<close> is \<open>N - k\<close> for iid and hetero and \<open>G - 1\<close> for a clustered covariance.
\<close>

theorem get_inference_formulas:
  assumes fit: "self_fit self = Some f"
    and V: "self_vcov self = Some V" "is_mat (self_k self) (self_k self) V"
    and beta: "length (beta_hat f) = self_k self"
    and ty: "self_vcov_type self = Some ty" "ty \<in> {''iid'', ''hetero'', ''CRV''}"
    and G: "ty = ''CRV'' \<longrightarrow> self_G self = Some g"
  shows "\<exists>se tstat pvalue lower upper df z.
      get_inference np alpha self
        = (None, self\<lparr> self_se := Some se, self_tstat := Some tstat, self_pvalue := Some pvalue,
                       self_conf_int := Some [lower, upper] \<rparr>)
    \<and> df = (if ty = ''CRV'' then int g - 1 else int (self_N self) - int (self_k self))
    \<and> z = (if self_method self = ''feols'' then \<bar>t_ppf np ((1 - alpha) / 2) df\<bar>
            else \<bar>norm_ppf np ((1 - alpha) / 2)\<bar>)
    \<and> length se = self_k self \<and> length tstat = self_k self \<and> length pvalue = self_k self
    \<and> length lower = self_k self \<and> length upper = self_k self
    \<and> (\<forall>i < self_k self.
          se ! i = sqrt (V ! i ! i)
        \<and> tstat ! i = beta_hat f ! i / se ! i
        \<and> pvalue ! i = (if self_method self = ''feols''
                         then 2 * (1 - t_cdf np \<bar>tstat ! i\<bar> df)
                         else 2 * (1 - norm_cdf np \<bar>tstat ! i\<bar>))
        \<and> lower ! i = beta_hat f ! i - z * se ! i
        \<and> upper ! i = beta_hat f ! i + z * se ! i)"
proof -
  define df where "df = (if ty = ''CRV'' then int g - 1 else int (self_N self) - int (self_k self))"
  define se where "se = map sqrt (diagonal V)"
  define tstat where "tstat = map2 (/) (beta_hat f) se"
  define z where "z = (if self_method self = ''feols'' then \<bar>t_ppf np ((1 - alpha) / 2) df\<bar>
            else \<bar>norm_ppf np ((1 - alpha) / 2)\<bar>)"
  define pvalue where "pvalue = (if self_method self = ''feols''
       then map (\<lambda>t. 2 * (1 - t_cdf np \<bar>t\<bar> df)) tstat
       else map (\<lambda>t. 2 * (1 - norm_cdf np \<bar>t\<bar>)) tstat)"
  define lower where "lower = vsub (beta_hat f) (map (\<lambda>s. z * s) se)"
  define upper where "upper = vadd (beta_hat f) (map (\<lambda>s. z * s) se)"
  have dfe: "inference_df self = Inr df"
    using ty G by (auto simp: inference_df_def df_def)
  have run: "get_inference np alpha self
        = (None, self\<lparr> self_se := Some se, self_tstat := Some tstat, self_pvalue := Some pvalue,
                       self_conf_int := Some [lower, upper] \<rparr>)"
    using fit V(1) dfe
    by (simp add: get_inference_def Let_def se_def tstat_def z_def pvalue_def lower_def upper_def)
  have lse: "length se = self_k self"
    by (simp add: se_def diagonal_square [OF V(2)])
  have lt: "length tstat = self_k self"
    by (simp add: tstat_def lse beta)
  have lp: "length pvalue = self_k self"
    by (simp add: pvalue_def lt)
  have ll: "length lower = self_k self" "length upper = self_k self"
    by (simp_all add: lower_def upper_def vsub_def vadd_def lse beta)
  have pt: "se ! i = sqrt (V ! i ! i)
        \<and> tstat ! i = beta_hat f ! i / se ! i
        \<and> pvalue ! i = (if self_method self = ''feols''
                         then 2 * (1 - t_cdf np \<bar>tstat ! i\<bar> df)
                         else 2 * (1 - norm_cdf np \<bar>tstat ! i\<bar>))
        \<and> lower ! i = beta_hat f ! i - z * se ! i
        \<and> upper ! i = beta_hat f ! i + z * se ! i" if "i < self_k self" for i
    using that lse lt beta diagonal_square [OF V(2)]
    by (simp add: se_def tstat_def pvalue_def lower_def upper_def vsub_def vadd_def)
  show ?thesis
    using run lse lt lp ll pt df_def z_def by blast
qed

theorem get_inference_formulas_witness:
  "get_vcov ref_ext (PDict [(PStr ''CRV3'', PStr ''c'')]) ex_model
     = (None, ex_model\<lparr> self_vcov_type := Some ''CRV'', self_vcov_type_detail := Some (PStr ''CRV3''),
                        self_is_clustered := Some True, self_clustervar := Some (PStr ''c''),
                        self_G := Some 2, self_ssc := Some 1, self_vcov := Some [[2]] \<rparr>)
   \<and> get_inference ref_ext (19 / 20)
        (ex_model\<lparr> self_vcov_type := Some ''CRV'', self_vcov_type_detail := Some (PStr ''CRV3''),
                   self_is_clustered := Some True, self_clustervar := Some (PStr ''c''),
                   self_G := Some 2, self_ssc := Some 1, self_vcov := Some [[2]] \<rparr>)
     = (None, ex_model\<lparr> self_vcov_type := Some ''CRV'', self_vcov_type_detail := Some (PStr ''CRV3''),
                        self_is_clustered := Some True, self_clustervar := Some (PStr ''c''),
                        self_G := Some 2, self_ssc := Some 1, self_vcov := Some [[2]],
                        self_se := Some [sqrt 2], self_tstat := Some [1 / sqrt 2],
                        self_pvalue := Some [1],
                        self_conf_int := Some [[1 - 2 * sqrt 2], [1 + 2 * sqrt 2]] \<rparr>)"
proof -
  let ?m = "ex_model\<lparr> self_vcov_type := Some ''CRV'', self_vcov_type_detail := Some (PStr ''CRV3''),
                   self_is_clustered := Some True, self_clustervar := Some (PStr ''c''),
                   self_G := Some 2, self_ssc := Some 1, self_vcov := Some [[2]] \<rparr>"
  have fit: "self_fit ?m = Some \<lparr> tZX = [[2]], tZy = [[2]], tZXinv = [[1 / 2]], beta_hat = [1],
      Y_hat_link = [1, 1], u_hat = [- 1, 1], scores = [[- 1], [1]],
      hessian = [[2]], tXZ = None, tZZinv = None \<rparr>"
    by (simp add: ex_model_def)
  have V: "self_vcov ?m = Some [[2]]" "is_mat (self_k ?m) (self_k ?m) [[2]]"
    by (simp_all add: ex_model_def is_mat_def)
  have beta: "length (beta_hat \<lparr> tZX = [[2]], tZy = [[2]], tZXinv = [[1 / 2]], beta_hat = [1],
      Y_hat_link = [1, 1], u_hat = [- 1, 1], scores = [[- 1], [1]],
      hessian = [[2]], tXZ = None, tZZinv = None \<rparr>) = self_k ?m"
    by (simp add: ex_model_def)
  have ty: "self_vcov_type ?m = Some ''CRV''" "''CRV'' \<in> {''iid'', ''hetero'', ''CRV''}"
    by simp_all
  have G: "''CRV'' = ''CRV'' \<longrightarrow> self_G ?m = Some 2"
    by simp
  have run: "get_vcov ref_ext (PDict [(PStr ''CRV3'', PStr ''c'')]) ex_model = (None, ?m)"
    by (simp add: model_defs)
  show ?thesis
    using run get_inference_formulas [OF fit V beta ty G, of ref_ext "19 / 20"]
    by (simp add: get_inference_def inference_df_def Let_def diagonal_def ncols_def
        vsub_def vadd_def ex_model_def ref_ext_def)
qed

end
